theory Spec2Isabelle
  imports Main
begin

section \<open>JSON values as JavaScript sees them\<close>

text \<open>
  The bridge handles parsed JSON-RPC messages. A JSON value is a \<open>json\<close>; a JavaScript
  value that may be \<open>undefined\<close> (a missing property) is a \<open>json option\<close>, with
  \<open>None\<close> for \<open>undefined\<close>. Numbers are the integers: request identifiers are
  integers, and a JavaScript number counts exactly up to \<open>2^53\<close>, far more requests
  than a bridge process serves. An object is the list of its fields, each name once.

  Text the bridge splits, trims or parses (the output of the child, an HTTP body) is a
  \<open>jstring\<close>: a JavaScript string as the list of its UTF-16 code units. A chunk read
  from the child is the text \<open>data.toString()\<close> decodes it to. The strings inside
  messages, the session ids and the header values are \<open>string\<close>s; Node hands a header
  value over decoded as Latin-1, so each of its characters is the code unit of that
  number.
\<close>

type_synonym jstring = "nat list"

datatype json =
    JNull
  | JBool bool
  | JNum int
  | JStr string
  | JArr "json list"
  | JObj "(string \<times> json) list"

text \<open>JavaScript truthiness: \<open>null\<close>, \<open>false\<close>, \<open>0\<close>, \<open>""\<close> and \<open>undefined\<close> are falsy.\<close>

fun truthy :: "json \<Rightarrow> bool" where
  "truthy JNull = False"
| "truthy (JBool b) = b"
| "truthy (JNum n) = (n \<noteq> 0)"
| "truthy (JStr s) = (s \<noteq> [])"
| "truthy (JArr xs) = True"
| "truthy (JObj kvs) = True"

fun truthy_val :: "json option \<Rightarrow> bool" where
  "truthy_val None = False"
| "truthy_val (Some v) = truthy v"

text \<open>
  Property access \<open>v.k\<close> on a value that is neither \<open>null\<close> nor \<open>undefined\<close>: an
  object yields its field, every other value yields \<open>undefined\<close> for the field names the
  bridge reads. (On \<open>null\<close> and \<open>undefined\<close> the access throws; each caller below
  writes that branch out.)
\<close>

fun jsprop :: "string \<Rightarrow> json \<Rightarrow> json option" where
  "jsprop k (JObj kvs) = map_of kvs k"
| "jsprop k v = None"

fun prop_val :: "string \<Rightarrow> json option \<Rightarrow> json option" where
  "prop_val k None = None"
| "prop_val k (Some v) = jsprop k v"

section \<open>Errors, callers and the bridge state\<close>

text \<open>
  \<open>Error m\<close> is \<open>new Error(m)\<close>, with the argument the code passes; \<open>TypeError\<close>
  is what a property access on \<open>null\<close> or \<open>undefined\<close> throws and \<open>SyntaxError\<close>
  what \<open>JSON.parse\<close> throws.
\<close>

datatype error = Error "json option" | TypeError | SyntaxError

text \<open>
  A caller is the code waiting on the promise of one round trip: the start-up handshake,
  or an HTTP exchange (identified by its response handle) together with the parsed message
  its continuation still needs.
\<close>

datatype caller =
    Startup
  | PostCall nat json
  | InitCall nat json
  | SimpleCall nat json

datatype outcome = Resolved "json option" | Rejected error

text \<open>\<open>Timer d n c e\<close>: a \<open>setTimeout\<close> of \<open>d\<close> ms whose callback, for request
  \<open>n\<close>, rejects caller \<open>c\<close> with \<open>e\<close> if \<open>n\<close> is still pending.\<close>

datatype timer = Timer nat int caller error

datatype logentry =
    LogNotAvailable
  | LogParseFailed jstring
  | LogInitialized
  | LogExit

record session =
  createdAt :: nat
  clientInfo :: "json option"

text \<open>
  The fields of \<open>MCPBridge\<close>, followed by what the bridge does to its environment:
  the messages written to the child's stdin, the armed timeouts, the promises settled so
  far (caller and outcome, in order), the keep-alive intervals, the console log, and the
  \<open>buffer\<close> variable of the stdout handler. \<open>mcpProcess = None\<close> is \<open>null\<close>;
  \<open>Some w\<close> is a process handle whose \<open>stdin.writable\<close> is \<open>w\<close>. \<open>issued\<close> is
  a history of the values \<open>this.requestId++\<close> has returned.
\<close>

record bridge =
  mcpProcess :: "bool option"
  requestId :: int
  pendingRequests :: "int \<rightharpoonup> caller"
  isInitialized :: bool
  mcpCapabilities :: "json option"
  sessions :: "string \<rightharpoonup> session"
  sseConnections :: "string \<rightharpoonup> nat"
  child_stdin :: "json list"
  timers :: "timer list"
  settled :: "(caller \<times> outcome) list"
  intervals :: "nat list"
  log :: "logentry list"
  buffer :: jstring
  issued :: "int list"

text \<open>The constructor.\<close>

definition new_bridge :: bridge where
  "new_bridge =
     \<lparr> mcpProcess = None, requestId = 1, pendingRequests = Map.empty,
       isInitialized = False, mcpCapabilities = None,
       sessions = Map.empty, sseConnections = Map.empty,
       child_stdin = [], timers = [], settled = [], intervals = [], log = [],
       buffer = [], issued = [] \<rparr>"

section \<open>Process supervisor: the exit handler\<close>

text \<open>
  Both variants register the same handler:
  \<^verbatim>\<open>this.mcpProcess.on('exit', ...) { console.log(...); this.mcpProcess = null; this.isInitialized = false; }\<close>
\<close>

definition on_exit :: "bridge \<Rightarrow> bridge" where
  "on_exit s = s\<lparr> log := log s @ [LogExit], mcpProcess := None, isInitialized := False \<rparr>"

section \<open>Request correlator, compliant variant\<close>

text \<open>\<open>this.requestId++\<close>: returns the current value and increments the field.\<close>

definition next_request_id :: "bridge \<Rightarrow> int \<times> bridge" where
  "next_request_id s =
     (requestId s, s\<lparr> requestId := requestId s + 1, issued := issued s @ [requestId s] \<rparr>)"

text \<open>
  The request object \<open>{jsonrpc: '2.0', id, method, params}\<close> as \<open>JSON.stringify\<close>
  writes it: a field whose value is \<open>undefined\<close> is left out.
\<close>

fun field :: "string \<Rightarrow> json option \<Rightarrow> (string \<times> json) list" where
  "field k None = []"
| "field k (Some v) = [(k, v)]"

definition mk_request :: "int \<Rightarrow> json option \<Rightarrow> json option \<Rightarrow> json" where
  "mk_request n method params =
     JObj ([(''jsonrpc'', JStr ''2.0''), (''id'', JNum n)] @ field ''method'' method @ field ''params'' params)"

text \<open>
  \<^verbatim>\<open>sendToMCP(message) {
    if (this.mcpProcess && this.mcpProcess.stdin.writable) { this.mcpProcess.stdin.write(JSON.stringify(message) + '\n'); }
    else { console.error('MCP process not available'); } }\<close>
\<close>

definition sendToMCP :: "json \<Rightarrow> bridge \<Rightarrow> bridge" where
  "sendToMCP message s =
     (if mcpProcess s = Some True
      then s\<lparr> child_stdin := child_stdin s @ [message] \<rparr>
      else s\<lparr> log := log s @ [LogNotAvailable] \<rparr>)"

text \<open>Calling \<open>resolve\<close> or \<open>reject\<close> of a caller's promise.\<close>

definition settle :: "caller \<Rightarrow> outcome \<Rightarrow> bridge \<Rightarrow> bridge" where
  "settle c out s = s\<lparr> settled := settled s @ [(c, out)] \<rparr>"

text \<open>
  \<open>this.pendingRequests.has(v)\<close> and \<open>.get(v)\<close>: the keys of the map are numbers, so
  only a number finds an entry.
\<close>

fun pending_get :: "bridge \<Rightarrow> json option \<Rightarrow> (int \<times> caller) option" where
  "pending_get s (Some (JNum n)) = (case pendingRequests s n of None \<Rightarrow> None | Some c \<Rightarrow> Some (n, c))"
| "pending_get s v = None"

text \<open>
  \<open>handleMCPResponse(response)\<close>. Reading \<open>response.id\<close> of \<open>null\<close> throws; nothing
  else in the function can throw.
\<close>

definition handleMCPResponse :: "json \<Rightarrow> bridge \<Rightarrow> error + bridge" where
  "handleMCPResponse response s =
     (if response = JNull then Inl TypeError
      else if \<not> truthy_val (jsprop ''id'' response) then Inr s
      else case pending_get s (jsprop ''id'' response) of
        None \<Rightarrow> Inr s
      | Some (n, c) \<Rightarrow>
          (let s1 = s\<lparr> pendingRequests := (pendingRequests s)(n := None) \<rparr> in
           if truthy_val (jsprop ''error'' response)
           then Inr (settle c (Rejected (Error (prop_val ''message'' (jsprop ''error'' response)))) s1)
           else
             (let s2 =
                (if truthy_val (jsprop ''result'' response)
                    \<and> truthy_val (prop_val ''capabilities'' (jsprop ''result'' response))
                 then s1\<lparr> mcpCapabilities := jsprop ''result'' response,
                          isInitialized := True,
                          log := log s1 @ [LogInitialized] \<rparr>
                 else s1)
              in Inr (settle c (Resolved (jsprop ''result'' response)) s2))))"

text \<open>
  \<open>proxyToMCP(method, params)\<close>, called by caller \<open>c\<close>: allocate the id, record the
  pending entry, send, arm the 30 s timeout.
\<close>

definition proxyToMCP :: "caller \<Rightarrow> json option \<Rightarrow> json option \<Rightarrow> bridge \<Rightarrow> bridge" where
  "proxyToMCP c method params s =
     (let (n, s1) = next_request_id s;
          s2 = s1\<lparr> pendingRequests := (pendingRequests s1)(n \<mapsto> c) \<rparr>;
          s3 = sendToMCP (mk_request n method params) s2
      in s3\<lparr> timers := timers s3 @ [Timer 30000 n c (Error (Some (JStr ''Request timeout'')))] \<rparr>)"

text \<open>\<open>initializeMCP()\<close> of the compliant variant: the same without a timeout.\<close>

definition initialize_params :: json where
  "initialize_params =
     JObj [(''protocolVersion'', JStr ''2025-06-18''),
           (''capabilities'', JObj [(''experimental'', JObj []), (''sampling'', JObj [])]),
           (''clientInfo'', JObj [(''name'', JStr ''mcp-universal-runtime''), (''version'', JStr ''1.0.0'')])]"

definition initializeMCP :: "bridge \<Rightarrow> bridge" where
  "initializeMCP s =
     (let (n, s1) = next_request_id s;
          s2 = s1\<lparr> pendingRequests := (pendingRequests s1)(n \<mapsto> Startup) \<rparr>
      in sendToMCP (mk_request n (Some (JStr ''initialize'')) (Some initialize_params)) s2)"

text \<open>
  The callback of a timeout:
  \<^verbatim>\<open>if (this.pendingRequests.has(request.id)) { this.pendingRequests.delete(request.id); reject(new Error(...)); }\<close>
  The timer has fired, so it leaves the armed timers.
\<close>

fun fire :: "timer \<Rightarrow> bridge \<Rightarrow> bridge" where
  "fire (Timer d n c e) s =
     (let s0 = s\<lparr> timers := remove1 (Timer d n c e) (timers s) \<rparr> in
      if pendingRequests s0 n \<noteq> None
      then settle c (Rejected e) (s0\<lparr> pendingRequests := (pendingRequests s0)(n := None) \<rparr>)
      else s0)"

section \<open>Request correlator, simple variant\<close>

text \<open>
  \<^verbatim>\<open>sendToMCP(request) {
    if (!this.mcpProcess || !this.mcpProcess.stdin.writable) { throw new Error('MCP process not available'); }
    this.mcpProcess.stdin.write(JSON.stringify(request) + '\n'); }\<close>
\<close>

definition sendToMCP_simple :: "json \<Rightarrow> bridge \<Rightarrow> error + bridge" where
  "sendToMCP_simple request s =
     (if mcpProcess s \<noteq> Some True
      then Inl (Error (Some (JStr ''MCP process not available'')))
      else Inr (s\<lparr> child_stdin := child_stdin s @ [request] \<rparr>))"

text \<open>\<open>x || d\<close>.\<close>

definition or_default :: "json option \<Rightarrow> json \<Rightarrow> json option" where
  "or_default v d = (if truthy_val v then v else Some d)"

definition handleMCPResponse_simple :: "json \<Rightarrow> bridge \<Rightarrow> error + bridge" where
  "handleMCPResponse_simple response s =
     (if response = JNull then Inl TypeError
      else if \<not> truthy_val (jsprop ''id'' response) then Inr s
      else case pending_get s (jsprop ''id'' response) of
        None \<Rightarrow> Inr s
      | Some (n, c) \<Rightarrow>
          (let s1 = s\<lparr> pendingRequests := (pendingRequests s)(n := None) \<rparr> in
           if truthy_val (jsprop ''error'' response)
           then Inr (settle c (Rejected (Error
                   (or_default (prop_val ''message'' (jsprop ''error'' response)) (JStr ''MCP Error'')))) s1)
           else
             (let s2 =
                (if truthy_val (jsprop ''result'' response)
                    \<and> truthy_val (prop_val ''capabilities'' (jsprop ''result'' response))
                 then s1\<lparr> mcpCapabilities := jsprop ''result'' response,
                          isInitialized := True,
                          log := log s1 @ [LogInitialized] \<rparr>
                 else s1)
              in Inr (settle c (Resolved (jsprop ''result'' response)) s2))))"

text \<open>
  \<open>proxyToMCP(method, params = {})\<close> of the simple variant. The result is the error the
  returned promise is rejected with at once (\<open>Some e\<close>), or \<open>None\<close> when the promise
  is left pending. The id is allocated and the pending entry recorded before the write;
  when the write throws inside the promise executor, the promise is rejected and the
  timeout is never armed.
\<close>

definition proxyToMCP_simple ::
  "caller \<Rightarrow> json option \<Rightarrow> json option \<Rightarrow> bridge \<Rightarrow> error option \<times> bridge" where
  "proxyToMCP_simple c method params s =
     (if \<not> isInitialized s then (Some (Error (Some (JStr ''MCP server not initialized''))), s)
      else
        (let (n, s1) = next_request_id s;
             s2 = s1\<lparr> pendingRequests := (pendingRequests s1)(n \<mapsto> c) \<rparr>
         in case sendToMCP_simple
                   (mk_request n method (case params of None \<Rightarrow> Some (JObj []) | Some p \<Rightarrow> Some p)) s2 of
              Inl e \<Rightarrow> (Some e, s2)
            | Inr s3 \<Rightarrow>
                (None, s3\<lparr> timers := timers s3 @
                   [Timer 30000 n c (Error (Some (JStr ''MCP request timeout'')))] \<rparr>)))"

definition initialize_params_simple :: json where
  "initialize_params_simple =
     JObj [(''protocolVersion'', JStr ''2024-11-05''),
           (''capabilities'', JObj [(''roots'', JObj [(''listChanged'', JBool True)]), (''sampling'', JObj [])]),
           (''clientInfo'', JObj [(''name'', JStr ''mcp-universal-runtime''), (''version'', JStr ''1.0.0'')])]"

text \<open>\<open>initializeMCP()\<close> of the simple variant: the handshake, with a 10 s timeout.\<close>

definition initializeMCP_simple :: "bridge \<Rightarrow> error option \<times> bridge" where
  "initializeMCP_simple s =
     (let (n, s1) = next_request_id s;
          s2 = s1\<lparr> pendingRequests := (pendingRequests s1)(n \<mapsto> Startup) \<rparr>
      in case sendToMCP_simple
                (mk_request n (Some (JStr ''initialize'')) (Some initialize_params_simple)) s2 of
           Inl e \<Rightarrow> (Some e, s2)
         | Inr s3 \<Rightarrow>
             (None, s3\<lparr> timers := timers s3 @
                [Timer 10000 n Startup (Error (Some (JStr ''MCP initialization timeout'')))] \<rparr>))"

section \<open>Process supervisor: framing the child's stdout\<close>


text \<open>
  \<open>s.split(c)\<close> for a one-character separator: \<open>"".split(c)\<close> is \<open>[""]\<close>, and a
  character other than the separator joins the first piece of the rest. The result is
  never empty, so the first branch of the \<open>case\<close> is never taken.
\<close>

fun split_on :: "'a \<Rightarrow> 'a list \<Rightarrow> 'a list list" where
  "split_on c [] = [[]]"
| "split_on c (x # xs) =
     (if x = c then [] # split_on c xs
      else (case split_on c xs of [] \<Rightarrow> [[x]] | l # ls \<Rightarrow> (x # l) # ls))"

text \<open>
  \<open>s.trim()\<close> removes white space and line terminators from both ends. These are the
  code units of ECMAScript's WhiteSpace (tab, vertical tab, form feed, the byte order
  mark U+FEFF and the space separators of Unicode: U+0020, U+00A0, U+1680, U+2000 to
  U+200A, U+202F, U+205F, U+3000) and LineTerminator (line feed, carriage return, U+2028,
  U+2029).
\<close>

definition is_space :: "nat \<Rightarrow> bool" where
  "is_space u =
     (u \<in> set [0x09, 0x0A, 0x0B, 0x0C, 0x0D, 0x20, 0xA0, 0x1680, 0x2028, 0x2029, 0x202F,
                0x205F, 0x3000, 0xFEFF]
      \<or> (0x2000 \<le> u \<and> u \<le> 0x200A))"

definition trim :: "jstring \<Rightarrow> jstring" where
  "trim s = rev (dropWhile is_space (rev (dropWhile is_space s)))"

text \<open>The same on a header value, whose characters are Latin-1 code units.\<close>

definition header_space :: "char \<Rightarrow> bool" where
  "header_space c = is_space (of_char c)"

definition trim_header :: "string \<Rightarrow> string" where
  "trim_header s = rev (dropWhile header_space (rev (dropWhile header_space s)))"

text \<open>
  The body of the loop over the complete lines. \<open>parse\<close> stands for \<open>JSON.parse\<close>
  (\<open>None\<close> when it throws) and \<open>handler\<close> for the variant's \<open>handleMCPResponse\<close>;
  an exception of either is caught and logged.
  \<^verbatim>\<open>if (line.trim()) { try { const response = JSON.parse(line); this.handleMCPResponse(response); }
                      catch (error) { console.error('Failed to parse MCP response:', line, error); } }\<close>
\<close>

definition process_line ::
  "(jstring \<Rightarrow> json option) \<Rightarrow> (json \<Rightarrow> bridge \<Rightarrow> error + bridge) \<Rightarrow> bridge \<Rightarrow> jstring
     \<Rightarrow> bridge" where
  "process_line parse handler s line =
     (if trim line \<noteq> []
      then (case parse line of
              None \<Rightarrow> s\<lparr> log := log s @ [LogParseFailed line] \<rparr>
            | Some response \<Rightarrow>
                (case handler response s of
                   Inl e \<Rightarrow> s\<lparr> log := log s @ [LogParseFailed line] \<rparr>
                 | Inr s' \<Rightarrow> s'))
      else s)"





section \<open>The bridge as an event loop\<close>

text \<open>
  \<open>startMCPProcess()\<close> once the entry point exists: spawn the child, register the
  handlers (with a fresh \<open>buffer\<close>), start the handshake.
\<close>

definition startMCPProcess :: "bridge \<Rightarrow> bridge" where
  "startMCPProcess s = initializeMCP (s\<lparr> mcpProcess := Some True, buffer := [] \<rparr>)"

definition startMCPProcess_simple :: "bridge \<Rightarrow> error option \<times> bridge" where
  "startMCPProcess_simple s = initializeMCP_simple (s\<lparr> mcpProcess := Some True, buffer := [] \<rparr>)"

text \<open>
  What can happen between two suspension points: the bridge starts its child, some caller
  proxies a request, a complete line of the child arrives, an armed timeout fires, the
  child closes its stdin, the child exits.
\<close>

datatype event =
    Start
  | Call caller "json option" "json option"
  | Line jstring
  | Fire timer
  | StdinClosed
  | Exit

definition stdin_closed :: "bridge \<Rightarrow> bridge" where
  "stdin_closed s = (case mcpProcess s of None \<Rightarrow> s | Some w \<Rightarrow> s\<lparr> mcpProcess := Some False \<rparr>)"

fun step :: "(jstring \<Rightarrow> json option) \<Rightarrow> bridge \<Rightarrow> event \<Rightarrow> bridge" where
  "step parse s Start = startMCPProcess s"
| "step parse s (Call c method params) = proxyToMCP c method params s"
| "step parse s (Line l) = process_line parse handleMCPResponse s l"
| "step parse s (Fire t) = (if t \<in> set (timers s) then fire t s else s)"
| "step parse s StdinClosed = stdin_closed s"
| "step parse s Exit = on_exit s"

fun step_simple :: "(jstring \<Rightarrow> json option) \<Rightarrow> bridge \<Rightarrow> event \<Rightarrow> bridge" where
  "step_simple parse s Start = snd (startMCPProcess_simple s)"
| "step_simple parse s (Call c method params) = snd (proxyToMCP_simple c method params s)"
| "step_simple parse s (Line l) = process_line parse handleMCPResponse_simple s l"
| "step_simple parse s (Fire t) = (if t \<in> set (timers s) then fire t s else s)"
| "step_simple parse s StdinClosed = stdin_closed s"
| "step_simple parse s Exit = on_exit s"

definition run :: "(jstring \<Rightarrow> json option) \<Rightarrow> event list \<Rightarrow> bridge \<Rightarrow> bridge" where
  "run parse evs s = foldl (step parse) s evs"

definition run_simple :: "(jstring \<Rightarrow> json option) \<Rightarrow> event list \<Rightarrow> bridge \<Rightarrow> bridge" where
  "run_simple parse evs s = foldl (step_simple parse) s evs"

text \<open>An event concerns request \<open>n\<close> when it is a line of the child carrying the id
  \<open>n\<close>, or a timeout of request \<open>n\<close> firing.\<close>

fun concerns :: "(jstring \<Rightarrow> json option) \<Rightarrow> int \<Rightarrow> event \<Rightarrow> bool" where
  "concerns parse n (Line l) =
     (case parse l of None \<Rightarrow> False | Some r \<Rightarrow> jsprop ''id'' r = Some (JNum n))"
| "concerns parse n (Fire (Timer d m c e)) = (m = n)"
| "concerns parse n ev = False"

section \<open>HTTP gateway, compliant variant\<close>

text \<open>
  A response as the handlers write it: the status, the headers given to \<open>writeHead\<close>,
  and the body. The bodies are the objects handed to \<open>JSON.stringify\<close>; a field whose
  value is \<open>undefined\<close> (\<open>None\<close>) is left out by it, \<open>id: null\<close> is \<open>Some JNull\<close>.
  An event stream lists the frames written when the stream opens.
\<close>

datatype errmsg = Lit string | MessageOf error

datatype frame =
    EventId string
  | CapabilitiesNotification "json option"
  | CapabilitiesData "json option"
  | KeepAlive
  | Ping

datatype body =
    NoBody
  | ErrorObj string
  | MessageObj string
  | RpcResult "json option" "json option"
  | RpcError "json option" int errmsg
  | EventStream "frame list"

record response =
  status :: nat
  headers :: "(string \<times> string) list"
  body :: body

text \<open>What a handler has done when it returns or suspends: written a response, or
  suspended on the promise of a round trip (\<open>await\<close>).\<close>

datatype reply = Reply response | Awaiting

definition json_response :: "nat \<Rightarrow> body \<Rightarrow> response" where
  "json_response code b = \<lparr> status = code, headers = [(''Content-Type'', ''application/json'')], body = b \<rparr>"

text \<open>\<open>s.includes(t)\<close>. A header is \<open>undefined\<close> (\<open>None\<close>) or a string; as a
  condition, \<open>undefined\<close> and the empty string are falsy.\<close>

fun str_includes :: "string \<Rightarrow> string \<Rightarrow> bool" where
  "str_includes [] t = (t = [])"
| "str_includes (c # cs) t = (take (length t) (c # cs) = t \<or> str_includes cs t)"

text \<open>
  \<^verbatim>\<open>validateAcceptHeader(acceptHeader, required) {
    if (!acceptHeader) return false;
    const acceptTypes = acceptHeader.split(',').map(t => t.trim().split(';')[0]);
    return required.every(type => acceptTypes.includes(type)); }\<close>
\<close>

definition validateAcceptHeader :: "string option \<Rightarrow> string list \<Rightarrow> bool" where
  "validateAcceptHeader acceptHeader required =
     (case acceptHeader of
        None \<Rightarrow> False
      | Some a \<Rightarrow>
          if a = [] then False
          else (let acceptTypes = map (\<lambda>t. hd (split_on (CHR '';'') (trim_header t))) (split_on (CHR '','') a)
                in list_all (\<lambda>ty. ty \<in> set acceptTypes) required))"

text \<open>\<open>sessionId && !this.sessions.has(sessionId)\<close>.\<close>

definition unknown_session :: "string option \<Rightarrow> bridge \<Rightarrow> bool" where
  "unknown_session sessionId s =
     (case sessionId of None \<Rightarrow> False | Some sid \<Rightarrow> sid \<noteq> [] \<and> sessions s sid = None)"

text \<open>
  \<open>handleInitializeRequest(message, res)\<close> up to its \<open>await\<close>, and its continuation
  once the promise is settled. \<open>uuid\<close> is what \<open>randomUUID()\<close> returns and \<open>now\<close>
  the clock. \<open>message.params.clientInfo\<close> throws when the message has no \<open>params\<close> or
  \<open>params\<close> is \<open>null\<close>; the \<open>catch\<close> of the function answers 500 then, as it does when
  the promise is rejected.
\<close>

definition handleInitializeRequest :: "nat \<Rightarrow> json \<Rightarrow> bridge \<Rightarrow> bridge" where
  "handleInitializeRequest res message s =
     proxyToMCP (InitCall res message) (jsprop ''method'' message) (jsprop ''params'' message) s"

definition handleInitializeRequest_resume ::
  "string \<Rightarrow> nat \<Rightarrow> json \<Rightarrow> outcome \<Rightarrow> bridge \<Rightarrow> response \<times> bridge" where
  "handleInitializeRequest_resume uuid now message out s =
     (case out of
        Rejected e \<Rightarrow>
          (json_response 500 (RpcError (jsprop ''id'' message) (- 32603) (MessageOf e)), s)
      | Resolved result \<Rightarrow>
          (case jsprop ''params'' message of
             None \<Rightarrow> (json_response 500 (RpcError (jsprop ''id'' message) (- 32603) (MessageOf TypeError)), s)
           | Some params \<Rightarrow>
               if params = JNull
               then (json_response 500 (RpcError (jsprop ''id'' message) (- 32603) (MessageOf TypeError)), s)
               else
                 (\<lparr> status = 200,
                    headers = [(''Content-Type'', ''application/json''), (''Mcp-Session-Id'', uuid)],
                    body = RpcResult (jsprop ''id'' message) result \<rparr>,
                  s\<lparr> sessions := (sessions s)(uuid \<mapsto>
                        \<lparr> createdAt = now, clientInfo = jsprop ''clientInfo'' params \<rparr>) \<rparr>)))"

text \<open>
  \<open>handleMCPPost\<close>, from the Accept check to the handling of the body once it has
  been read. Every exception inside the \<open>try\<close>, the rejection of the proxied call
  included, is answered by the same \<open>catch\<close>: 400 with code \<open>-32700\<close>.
\<close>

definition parse_error :: response where
  "parse_error = json_response 400 (RpcError (Some JNull) (- 32700) (Lit ''Parse error''))"

definition handleMCPPost ::
  "(jstring \<Rightarrow> json option) \<Rightarrow> nat \<Rightarrow> string option \<Rightarrow> string option \<Rightarrow> jstring \<Rightarrow> bridge
     \<Rightarrow> reply \<times> bridge" where
  "handleMCPPost parse res acceptHeader sessionId reqbody s =
     (if \<not> validateAcceptHeader acceptHeader [''application/json'', ''text/event-stream'']
      then (Reply (json_response 400 (RpcError (Some JNull) (- 32600)
              (Lit ''Accept header must include application/json and text/event-stream''))), s)
      else case parse reqbody of
        None \<Rightarrow> (Reply parse_error, s)
      | Some message \<Rightarrow>
          if message = JNull then (Reply parse_error, s)
          else if jsprop ''method'' message = Some (JStr ''initialize'')
          then (Awaiting, handleInitializeRequest res message s)
          else if unknown_session sessionId s
          then (Reply (json_response 404
                  (RpcError (jsprop ''id'' message) (- 32001) (Lit ''Session not found''))), s)
          else if truthy_val (jsprop ''id'' message)
          then (Awaiting,
                proxyToMCP (PostCall res message) (jsprop ''method'' message) (jsprop ''params'' message) s)
          else (Reply \<lparr> status = 202, headers = [], body = NoBody \<rparr>,
                if truthy_val (jsprop ''method'' message) then sendToMCP message s else s))"

definition handleMCPPost_resume :: "json \<Rightarrow> outcome \<Rightarrow> response" where
  "handleMCPPost_resume message out =
     (case out of
        Resolved result \<Rightarrow> json_response 200 (RpcResult (jsprop ''id'' message) result)
      | Rejected e \<Rightarrow> parse_error)"

text \<open>
  \<open>handleMCPGet\<close>: \<open>res\<close> is the response handle, \<open>connectionId\<close> what
  \<open>randomUUID()\<close> returns. Accepting the stream stores the connection, writes the
  capabilities frame when the child is ready, and starts the keep-alive interval.
\<close>

definition handleMCPGet ::
  "nat \<Rightarrow> string option \<Rightarrow> string option \<Rightarrow> string option \<Rightarrow> string \<Rightarrow> bridge
     \<Rightarrow> response \<times> bridge" where
  "handleMCPGet res acceptHeader origin sessionId connectionId s =
     (if (case acceptHeader of None \<Rightarrow> True
          | Some a \<Rightarrow> a = [] \<or> \<not> str_includes a ''text/event-stream'')
      then (json_response 400 (ErrorObj ''Accept header must include text/event-stream''), s)
      else if unknown_session sessionId s
      then (json_response 404 (ErrorObj ''Session not found''), s)
      else
        (\<lparr> status = 200,
           headers = [(''Content-Type'', ''text/event-stream''), (''Cache-Control'', ''no-cache''),
                      (''Connection'', ''keep-alive''),
                      (''Access-Control-Allow-Origin'',
                       (case origin of None \<Rightarrow> ''*'' | Some orig \<Rightarrow> if orig = [] then ''*'' else orig))],
           body = EventStream
                    (if isInitialized s \<and> truthy_val (mcpCapabilities s)
                     then [EventId (connectionId @ ''-1''), CapabilitiesNotification (mcpCapabilities s)]
                     else []) \<rparr>,
         s\<lparr> sseConnections := (sseConnections s)(connectionId \<mapsto> res),
            intervals := intervals s @ [res] \<rparr>))"

text \<open>\<open>handleMCPDelete(req, res, sessionId)\<close>.\<close>

definition handleMCPDelete :: "string option \<Rightarrow> bridge \<Rightarrow> response \<times> bridge" where
  "handleMCPDelete sessionId s =
     (case sessionId of
        None \<Rightarrow> (json_response 400 (ErrorObj ''Session ID required''), s)
      | Some sid \<Rightarrow>
          if sid = [] then (json_response 400 (ErrorObj ''Session ID required''), s)
          else if sessions s sid \<noteq> None
          then (json_response 200 (MessageObj ''Session terminated''),
                s\<lparr> sessions := (sessions s)(sid := None) \<rparr>)
          else (json_response 404 (ErrorObj ''Session not found''), s))"

text \<open>
  The routing of \<open>handleHTTPRequest\<close>: with two or more path segments, a last segment
  that names a route replaces the path.
\<close>

definition normalize_path :: "string list \<Rightarrow> string \<Rightarrow> string" where
  "normalize_path routes pathname =
     (let pathParts = filter (\<lambda>p. p \<noteq> []) (split_on (CHR ''/'') pathname)
      in if length pathParts \<ge> 2 \<and> last pathParts \<in> set routes
         then ''/'' @ last pathParts else pathname)"

datatype route = ToHealth | ToMcp | ToSse | ToCapabilities | NotFound

definition route :: "string \<Rightarrow> route" where
  "route pathname =
     (let path = normalize_path [''health'', ''mcp''] pathname
      in if path = ''/health'' then ToHealth
         else if path = ''/mcp'' then ToMcp
         else NotFound)"

section \<open>HTTP gateway, simple variant\<close>

definition route_simple :: "string \<Rightarrow> route" where
  "route_simple pathname =
     (let path = normalize_path [''health'', ''mcp'', ''sse'', ''capabilities''] pathname
      in if path = ''/health'' then ToHealth
         else if path = ''/mcp'' then ToMcp
         else if path = ''/sse'' then ToSse
         else if path = ''/capabilities'' then ToCapabilities
         else NotFound)"

text \<open>
  \<open>handleMCP(req, res)\<close> up to its \<open>await\<close>, and its continuation. Every exception
  is answered 500 with code \<open>-32603\<close> and the message of the error.
\<close>

definition internal_error :: "error \<Rightarrow> response" where
  "internal_error e = json_response 500 (RpcError (Some JNull) (- 32603) (MessageOf e))"

definition handleMCP_simple ::
  "(jstring \<Rightarrow> json option) \<Rightarrow> nat \<Rightarrow> string \<Rightarrow> jstring \<Rightarrow> bridge \<Rightarrow> reply \<times> bridge" where
  "handleMCP_simple parse res http_method reqbody s =
     (if http_method \<noteq> ''POST''
      then (Reply (json_response 405 (ErrorObj ''Method not allowed'')), s)
      else case parse reqbody of
        None \<Rightarrow> (Reply (internal_error SyntaxError), s)
      | Some request \<Rightarrow>
          if request = JNull then (Reply (internal_error TypeError), s)
          else case proxyToMCP_simple (SimpleCall res request)
                      (jsprop ''method'' request) (jsprop ''params'' request) s of
                 (Some e, s') \<Rightarrow> (Reply (internal_error e), s')
               | (None, s') \<Rightarrow> (Awaiting, s'))"

definition handleMCP_simple_resume :: "json \<Rightarrow> outcome \<Rightarrow> response" where
  "handleMCP_simple_resume request out =
     (case out of
        Resolved result \<Rightarrow> json_response 200 (RpcResult (jsprop ''id'' request) result)
      | Rejected e \<Rightarrow> internal_error e)"

text \<open>\<open>handleSSE(req, res)\<close>: no header is read; the stream is always opened.\<close>

definition handleSSE_simple :: "nat \<Rightarrow> string option \<Rightarrow> bridge \<Rightarrow> response \<times> bridge" where
  "handleSSE_simple res acceptHeader s =
     (\<lparr> status = 200,
        headers = [(''Content-Type'', ''text/event-stream''), (''Cache-Control'', ''no-cache''),
                   (''Connection'', ''keep-alive'')],
        body = EventStream
                 (if isInitialized s \<and> truthy_val (mcpCapabilities s)
                  then [CapabilitiesData (mcpCapabilities s)] else []) \<rparr>,
      s\<lparr> intervals := intervals s @ [res] \<rparr>)"

section \<open>Child exit\<close>

lemma stdin_closed_mcpProcess_None:
  "mcpProcess s = None \<Longrightarrow> mcpProcess (stdin_closed s) = None"
  by (simp add: stdin_closed_def)

lemma sendToMCP_mcpProcess [simp]: "mcpProcess (sendToMCP m s) = mcpProcess s"
  by (simp add: sendToMCP_def)

lemma proxyToMCP_mcpProcess [simp]: "mcpProcess (proxyToMCP c m p s) = mcpProcess s"
  by (simp add: proxyToMCP_def next_request_id_def Let_def)

lemma fire_mcpProcess [simp]: "mcpProcess (fire t s) = mcpProcess s"
  by (cases t) (simp add: Let_def settle_def)

lemma handleMCPResponse_mcpProcess:
  "handleMCPResponse r s = Inr s' \<Longrightarrow> mcpProcess s' = mcpProcess s"
  by (auto simp: handleMCPResponse_def Let_def settle_def split: if_splits option.splits)

lemma handleMCPResponse_simple_mcpProcess:
  "handleMCPResponse_simple r s = Inr s' \<Longrightarrow> mcpProcess s' = mcpProcess s"
  by (auto simp: handleMCPResponse_simple_def Let_def settle_def split: if_splits option.splits)

lemma process_line_mcpProcess:
  "mcpProcess (process_line parse handleMCPResponse s l) = mcpProcess s"
  by (auto simp: process_line_def handleMCPResponse_mcpProcess split: option.splits sum.splits)

lemma process_line_simple_mcpProcess:
  "mcpProcess (process_line parse handleMCPResponse_simple s l) = mcpProcess s"
  by (auto simp: process_line_def handleMCPResponse_simple_mcpProcess split: option.splits sum.splits)

lemma proxyToMCP_simple_mcpProcess [simp]:
  "mcpProcess (snd (proxyToMCP_simple c m p s)) = mcpProcess s"
  by (auto simp: proxyToMCP_simple_def next_request_id_def sendToMCP_simple_def Let_def)

lemma step_no_respawn:
  "ev \<noteq> Start \<Longrightarrow> mcpProcess s = None \<Longrightarrow> mcpProcess (step parse s ev) = None"
  by (cases ev) (simp_all add: process_line_mcpProcess stdin_closed_mcpProcess_None on_exit_def)

lemma step_simple_no_respawn:
  "ev \<noteq> Start \<Longrightarrow> mcpProcess s = None \<Longrightarrow> mcpProcess (step_simple parse s ev) = None"
  by (cases ev) (simp_all add: process_line_simple_mcpProcess stdin_closed_mcpProcess_None on_exit_def)

lemma run_no_respawn:
  "Start \<notin> set evs \<Longrightarrow> mcpProcess s = None \<Longrightarrow> mcpProcess (run parse evs s) = None"
  unfolding run_def
  by (induction evs arbitrary: s) (auto simp: step_no_respawn)

lemma run_simple_no_respawn:
  "Start \<notin> set evs \<Longrightarrow> mcpProcess s = None \<Longrightarrow> mcpProcess (run_simple parse evs s) = None"
  unfolding run_simple_def
  by (induction evs arbitrary: s) (auto simp: step_simple_no_respawn)

text \<open>
  C4, as the code has it. On the exit of the child (the handler reads neither the exit
  code nor the signal, and is the same in both variants) the bridge drops the process
  handle and sets readiness to false; it keeps the stored capabilities, the pending
  requests, the armed timeouts, and settles no promise. No later event other than the
  start of the bridge itself brings a child back, in either variant.
\<close>

theorem exit_keeps_capabilities_and_pending:
  "isInitialized (on_exit s) = False
   \<and> mcpProcess (on_exit s) = None
   \<and> mcpCapabilities (on_exit s) = mcpCapabilities s
   \<and> pendingRequests (on_exit s) = pendingRequests s
   \<and> settled (on_exit s) = settled s
   \<and> timers (on_exit s) = timers s
   \<and> requestId (on_exit s) = requestId s
   \<and> (Start \<notin> set evs \<longrightarrow>
        mcpProcess (run parse evs (on_exit s)) = None
        \<and> mcpProcess (run_simple parse evs (on_exit s)) = None)"
proof -
  have "mcpProcess (on_exit s) = None"
    by (simp add: on_exit_def)
  then have "Start \<notin> set evs \<longrightarrow>
        mcpProcess (run parse evs (on_exit s)) = None
        \<and> mcpProcess (run_simple parse evs (on_exit s)) = None"
    by (simp add: run_no_respawn run_simple_no_respawn)
  then show ?thesis
    by (simp add: on_exit_def)
qed

theorem exit_keeps_capabilities_and_pending_witness:
  "Start \<notin> set [Call Startup None None, Line [120], Exit]
   \<and> isInitialized (on_exit (startMCPProcess new_bridge)) = False
   \<and> pendingRequests (on_exit (startMCPProcess new_bridge)) 1 = Some Startup
   \<and> mcpProcess (run Map.empty [Call Startup None None, Line [120], Exit]
        (on_exit (startMCPProcess new_bridge))) = None"
  using exit_keeps_capabilities_and_pending
    [of "startMCPProcess new_bridge" "[Call Startup None None, Line [120], Exit]" Map.empty]
  by (simp add: startMCPProcess_def initializeMCP_def next_request_id_def sendToMCP_def
      new_bridge_def Let_def)

text \<open>
  C4 as the spec words it fails: the capabilities are not cleared. The child answers the
  start-up handshake with capabilities and then exits; the capabilities stored at the
  handshake are still stored after the exit.
\<close>

theorem exit_clears_capabilities_counterexample:
  "(case handleMCPResponse
           (JObj [(''id'', JNum 1), (''result'', JObj [(''capabilities'', JObj [])])])
           (startMCPProcess new_bridge) of
      Inl e \<Rightarrow> False
    | Inr s \<Rightarrow> isInitialized s
        \<and> mcpCapabilities s = Some (JObj [(''capabilities'', JObj [])])
        \<and> mcpCapabilities (on_exit s) = Some (JObj [(''capabilities'', JObj [])]))"
  by (simp add: handleMCPResponse_def startMCPProcess_def initializeMCP_def next_request_id_def
      sendToMCP_def new_bridge_def settle_def on_exit_def Let_def)

section \<open>Frame lemmas of the correlator\<close>

lemma pending_get_SomeD:
  "pending_get s v = Some (n, c) \<Longrightarrow> v = Some (JNum n) \<and> pendingRequests s n = Some c"
  by (cases "(s, v)" rule: pending_get.cases) (auto split: option.splits)

lemma handleMCPResponse_frame:
  "handleMCPResponse r s = Inr s' \<Longrightarrow> requestId s' = requestId s \<and> timers s' = timers s"
  by (auto simp: handleMCPResponse_def Let_def settle_def split: if_splits option.splits)

lemma handleMCPResponse_pending_other:
  "handleMCPResponse r s = Inr s' \<Longrightarrow> jsprop ''id'' r \<noteq> Some (JNum n) \<Longrightarrow>
     pendingRequests s' n = pendingRequests s n"
  by (auto simp: handleMCPResponse_def Let_def settle_def dest!: pending_get_SomeD
      split: if_splits option.splits)

lemma handleMCPResponse_pending_None:
  "handleMCPResponse r s = Inr s' \<Longrightarrow> pendingRequests s n = None \<Longrightarrow> pendingRequests s' n = None"
  by (auto simp: handleMCPResponse_def Let_def settle_def split: if_splits option.splits)

lemma handleMCPResponse_simple_frame:
  "handleMCPResponse_simple r s = Inr s' \<Longrightarrow> requestId s' = requestId s \<and> timers s' = timers s"
  by (auto simp: handleMCPResponse_simple_def Let_def settle_def split: if_splits option.splits)

lemma handleMCPResponse_simple_pending_other:
  "handleMCPResponse_simple r s = Inr s' \<Longrightarrow> jsprop ''id'' r \<noteq> Some (JNum n) \<Longrightarrow>
     pendingRequests s' n = pendingRequests s n"
  by (auto simp: handleMCPResponse_simple_def Let_def settle_def dest!: pending_get_SomeD
      split: if_splits option.splits)

lemma handleMCPResponse_simple_pending_None:
  "handleMCPResponse_simple r s = Inr s' \<Longrightarrow> pendingRequests s n = None \<Longrightarrow> pendingRequests s' n = None"
  by (auto simp: handleMCPResponse_simple_def Let_def settle_def split: if_splits option.splits)

lemma process_line_frame:
  assumes "\<And>r s s'. handler r s = Inr s' \<Longrightarrow> requestId s' = requestId s \<and> timers s' = timers s"
  shows "requestId (process_line parse handler s l) = requestId s
         \<and> timers (process_line parse handler s l) = timers s"
  using assms by (auto simp: process_line_def split: option.splits sum.splits)

lemma process_line_pending_other:
  assumes "\<And>r s s'. handler r s = Inr s' \<Longrightarrow> jsprop ''id'' r \<noteq> Some (JNum n) \<Longrightarrow>
             pendingRequests s' n = pendingRequests s n"
    and "\<not> concerns parse n (Line l)"
  shows "pendingRequests (process_line parse handler s l) n = pendingRequests s n"
  using assms by (auto simp: process_line_def split: option.splits sum.splits)

lemma process_line_pending_None:
  assumes "\<And>r s s'. handler r s = Inr s' \<Longrightarrow> pendingRequests s n = None \<Longrightarrow> pendingRequests s' n = None"
    and "pendingRequests s n = None"
  shows "pendingRequests (process_line parse handler s l) n = None"
  using assms by (auto simp: process_line_def split: option.splits sum.splits)

lemma fire_frame: "requestId (fire t s) = requestId s"
  by (cases t) (simp add: Let_def settle_def)

lemma fire_pending_other:
  "\<not> concerns parse n (Fire t) \<Longrightarrow> pendingRequests (fire t s) n = pendingRequests s n"
  by (cases t) (simp add: Let_def settle_def)

lemma fire_pending_None:
  "pendingRequests s n = None \<Longrightarrow> pendingRequests (fire t s) n = None"
  by (cases t) (simp add: Let_def settle_def)

lemma fire_timers_other:
  "\<not> concerns parse n (Fire t) \<Longrightarrow> Timer d n c e \<in> set (timers s) \<Longrightarrow>
     Timer d n c e \<in> set (timers (fire t s))"
  by (cases t) (auto simp: Let_def settle_def)

lemma proxyToMCP_frame:
  "requestId (proxyToMCP c m p s) = requestId s + 1
   \<and> timers (proxyToMCP c m p s) = timers s @ [Timer 30000 (requestId s) c (Error (Some (JStr ''Request timeout'')))]
   \<and> pendingRequests (proxyToMCP c m p s) = (pendingRequests s)(requestId s \<mapsto> c)
   \<and> settled (proxyToMCP c m p s) = settled s"
  by (simp add: proxyToMCP_def next_request_id_def sendToMCP_def Let_def)

lemma initializeMCP_frame:
  "requestId (initializeMCP s) = requestId s + 1
   \<and> timers (initializeMCP s) = timers s
   \<and> pendingRequests (initializeMCP s) = (pendingRequests s)(requestId s \<mapsto> Startup)"
  by (simp add: initializeMCP_def next_request_id_def sendToMCP_def Let_def)

lemma proxyToMCP_simple_frame:
  "requestId s \<le> requestId (snd (proxyToMCP_simple c m p s))
   \<and> set (timers s) \<subseteq> set (timers (snd (proxyToMCP_simple c m p s)))
   \<and> (n < requestId s \<longrightarrow> pendingRequests (snd (proxyToMCP_simple c m p s)) n = pendingRequests s n)"
  by (auto simp: proxyToMCP_simple_def next_request_id_def sendToMCP_simple_def Let_def)

lemma initializeMCP_simple_frame:
  "requestId s \<le> requestId (snd (initializeMCP_simple s))
   \<and> set (timers s) \<subseteq> set (timers (snd (initializeMCP_simple s)))
   \<and> (n < requestId s \<longrightarrow> pendingRequests (snd (initializeMCP_simple s)) n = pendingRequests s n)"
  by (auto simp: initializeMCP_simple_def next_request_id_def sendToMCP_simple_def Let_def)

lemma step_keeps:
  assumes "\<not> concerns parse n ev" and "n < requestId s"
  shows "n < requestId (step parse s ev)
         \<and> pendingRequests (step parse s ev) n = pendingRequests s n
         \<and> (Timer d n c e \<in> set (timers s) \<longrightarrow> Timer d n c e \<in> set (timers (step parse s ev)))"
proof (cases ev)
  case Start
  with assms show ?thesis
    by (simp add: startMCPProcess_def initializeMCP_frame)
next
  case (Call c' m p)
  with assms show ?thesis by (simp add: proxyToMCP_frame)
next
  case (Line l)
  with assms show ?thesis
    using process_line_frame [of handleMCPResponse parse s l, OF handleMCPResponse_frame]
      process_line_pending_other [of handleMCPResponse n parse l s, OF handleMCPResponse_pending_other]
    by simp
next
  case (Fire t)
  with assms show ?thesis
    using fire_pending_other [of parse n t s] fire_timers_other [of parse n t d c e s]
    by (simp add: fire_frame)
next
  case StdinClosed
  with assms show ?thesis by (simp add: stdin_closed_def split: option.splits)
next
  case Exit
  with assms show ?thesis by (simp add: on_exit_def)
qed

lemma step_keeps_None:
  assumes "pendingRequests s n = None" and "n < requestId s"
  shows "n < requestId (step parse s ev) \<and> pendingRequests (step parse s ev) n = None"
proof (cases ev)
  case Start
  with assms show ?thesis
    by (simp add: startMCPProcess_def initializeMCP_frame)
next
  case (Call c' m p)
  with assms show ?thesis by (simp add: proxyToMCP_frame)
next
  case (Line l)
  with assms show ?thesis
    using process_line_frame [of handleMCPResponse parse s l, OF handleMCPResponse_frame]
      process_line_pending_None [of handleMCPResponse n s parse l, OF handleMCPResponse_pending_None]
    by simp
next
  case (Fire t)
  with assms show ?thesis
    by (simp add: fire_frame fire_pending_None)
next
  case StdinClosed
  with assms show ?thesis by (simp add: stdin_closed_def split: option.splits)
next
  case Exit
  with assms show ?thesis by (simp add: on_exit_def)
qed

lemma step_simple_keeps:
  assumes "\<not> concerns parse n ev" and "n < requestId s"
  shows "n < requestId (step_simple parse s ev)
         \<and> pendingRequests (step_simple parse s ev) n = pendingRequests s n
         \<and> (Timer d n c e \<in> set (timers s) \<longrightarrow> Timer d n c e \<in> set (timers (step_simple parse s ev)))"
proof (cases ev)
  case Start
  with assms show ?thesis
    using initializeMCP_simple_frame [of "s\<lparr>mcpProcess := Some True, buffer := []\<rparr>" n]
    by (auto simp: startMCPProcess_simple_def)
next
  case (Call c' m p)
  with assms show ?thesis
    using proxyToMCP_simple_frame [of s c' m p n] by auto
next
  case (Line l)
  with assms show ?thesis
    using process_line_frame [of handleMCPResponse_simple parse s l, OF handleMCPResponse_simple_frame]
      process_line_pending_other [of handleMCPResponse_simple n parse l s,
        OF handleMCPResponse_simple_pending_other]
    by simp
next
  case (Fire t)
  with assms show ?thesis
    using fire_pending_other [of parse n t s] fire_timers_other [of parse n t d c e s]
    by (simp add: fire_frame)
next
  case StdinClosed
  with assms show ?thesis by (simp add: stdin_closed_def split: option.splits)
next
  case Exit
  with assms show ?thesis by (simp add: on_exit_def)
qed

lemma step_simple_keeps_None:
  assumes "pendingRequests s n = None" and "n < requestId s"
  shows "n < requestId (step_simple parse s ev) \<and> pendingRequests (step_simple parse s ev) n = None"
proof (cases ev)
  case Start
  with assms show ?thesis
    using initializeMCP_simple_frame [of "s\<lparr>mcpProcess := Some True, buffer := []\<rparr>" n]
    by (auto simp: startMCPProcess_simple_def)
next
  case (Call c' m p)
  with assms show ?thesis
    using proxyToMCP_simple_frame [of s c' m p n] by auto
next
  case (Line l)
  with assms show ?thesis
    using process_line_frame [of handleMCPResponse_simple parse s l, OF handleMCPResponse_simple_frame]
      process_line_pending_None [of handleMCPResponse_simple n s parse l,
        OF handleMCPResponse_simple_pending_None]
    by simp
next
  case (Fire t)
  with assms show ?thesis
    by (simp add: fire_frame fire_pending_None)
next
  case StdinClosed
  with assms show ?thesis by (simp add: stdin_closed_def split: option.splits)
next
  case Exit
  with assms show ?thesis by (simp add: on_exit_def)
qed

lemma run_keeps:
  "\<forall>ev\<in>set evs. \<not> concerns parse n ev \<Longrightarrow> n < requestId s \<Longrightarrow>
     n < requestId (run parse evs s)
     \<and> pendingRequests (run parse evs s) n = pendingRequests s n
     \<and> (Timer d n c e \<in> set (timers s) \<longrightarrow> Timer d n c e \<in> set (timers (run parse evs s)))"
  unfolding run_def
proof (induction evs arbitrary: s)
  case Nil
  then show ?case by simp
next
  case (Cons ev evs)
  from Cons.prems have k: "\<not> concerns parse n ev" by simp
  note st = step_keeps [OF k Cons.prems(2), of d c e]
  from Cons.prems have "\<forall>ev\<in>set evs. \<not> concerns parse n ev" by simp
  from Cons.IH [OF this, of "step parse s ev"] st show ?case by simp
qed

lemma run_keeps_None:
  "pendingRequests s n = None \<Longrightarrow> n < requestId s \<Longrightarrow>
     n < requestId (run parse evs s) \<and> pendingRequests (run parse evs s) n = None"
  unfolding run_def
proof (induction evs arbitrary: s)
  case Nil
  then show ?case by simp
next
  case (Cons ev evs)
  note st = step_keeps_None [OF Cons.prems, of parse ev]
  from Cons.IH [of "step parse s ev"] st show ?case by simp
qed

lemma run_simple_keeps:
  "\<forall>ev\<in>set evs. \<not> concerns parse n ev \<Longrightarrow> n < requestId s \<Longrightarrow>
     n < requestId (run_simple parse evs s)
     \<and> pendingRequests (run_simple parse evs s) n = pendingRequests s n
     \<and> (Timer d n c e \<in> set (timers s) \<longrightarrow> Timer d n c e \<in> set (timers (run_simple parse evs s)))"
  unfolding run_simple_def
proof (induction evs arbitrary: s)
  case Nil
  then show ?case by simp
next
  case (Cons ev evs)
  from Cons.prems have k: "\<not> concerns parse n ev" by simp
  note st = step_simple_keeps [OF k Cons.prems(2), of d c e]
  from Cons.prems have "\<forall>ev\<in>set evs. \<not> concerns parse n ev" by simp
  from Cons.IH [OF this, of "step_simple parse s ev"] st show ?case by simp
qed

lemma run_simple_keeps_None:
  "pendingRequests s n = None \<Longrightarrow> n < requestId s \<Longrightarrow>
     n < requestId (run_simple parse evs s) \<and> pendingRequests (run_simple parse evs s) n = None"
  unfolding run_simple_def
proof (induction evs arbitrary: s)
  case Nil
  then show ?case by simp
next
  case (Cons ev evs)
  note st = step_simple_keeps_None [OF Cons.prems, of parse ev]
  from Cons.IH [of "step_simple parse s ev"] st show ?case by simp
qed

section \<open>Timeouts\<close>

lemma handleMCPResponse_no_match:
  "r \<noteq> JNull \<Longrightarrow> pending_get s (jsprop ''id'' r) = None \<Longrightarrow> handleMCPResponse r s = Inr s"
  by (simp add: handleMCPResponse_def)

lemma handleMCPResponse_simple_no_match:
  "r \<noteq> JNull \<Longrightarrow> pending_get s (jsprop ''id'' r) = None \<Longrightarrow> handleMCPResponse_simple r s = Inr s"
  by (simp add: handleMCPResponse_simple_def)

lemma late_response_discarded:
  assumes "pendingRequests s n = None" and "jsprop ''id'' r = Some (JNum n)"
  shows "handleMCPResponse r s = Inr s" and "handleMCPResponse_simple r s = Inr s"
proof -
  from assms(2) have "r \<noteq> JNull" by auto
  moreover from assms have "pending_get s (jsprop ''id'' r) = None" by simp
  ultimately show "handleMCPResponse r s = Inr s" and "handleMCPResponse_simple r s = Inr s"
    by (simp_all add: handleMCPResponse_no_match handleMCPResponse_simple_no_match)
qed

lemma fire_pending:
  "pendingRequests s n = Some c' \<Longrightarrow>
     pendingRequests (fire (Timer d n c e) s) n = None
     \<and> settled (fire (Timer d n c e) s) = settled s @ [(c, Rejected e)]
     \<and> requestId (fire (Timer d n c e) s) = requestId s"
  by (simp add: Let_def settle_def)

lemma timeout_after_quiet:
  assumes quiet: "\<forall>ev\<in>set evs. \<not> concerns parse n ev"
    and fresh: "n < requestId s1"
    and pend: "pendingRequests s1 n = Some c"
    and armed: "Timer d n c e \<in> set (timers s1)"
  shows "pendingRequests (run parse evs s1) n = Some c"
    and "Timer d n c e \<in> set (timers (run parse evs s1))"
    and "pendingRequests (step parse (run parse evs s1) (Fire (Timer d n c e))) n = None"
    and "settled (step parse (run parse evs s1) (Fire (Timer d n c e)))
           = settled (run parse evs s1) @ [(c, Rejected e)]"
    and "jsprop ''id'' r = Some (JNum n) \<Longrightarrow>
           handleMCPResponse r (run parse evs' (step parse (run parse evs s1) (Fire (Timer d n c e))))
             = Inr (run parse evs' (step parse (run parse evs s1) (Fire (Timer d n c e))))"
proof -
  let ?s2 = "run parse evs s1"
  let ?s3 = "step parse ?s2 (Fire (Timer d n c e))"
  note k = run_keeps [OF quiet fresh, of d c e]
  from k pend show p2: "pendingRequests ?s2 n = Some c" by simp
  from k armed show t2: "Timer d n c e \<in> set (timers ?s2)" by simp
  from t2 have s3: "?s3 = fire (Timer d n c e) ?s2" by simp
  note f = fire_pending [OF p2, of d c e]
  from f s3 show p3: "pendingRequests ?s3 n = None" by simp
  from f s3 show "settled ?s3 = settled ?s2 @ [(c, Rejected e)]" by simp
  from f s3 k have "n < requestId ?s3" by simp
  from run_keeps_None [OF p3 this, of parse evs']
  have "pendingRequests (run parse evs' ?s3) n = None" by simp
  then show "handleMCPResponse r (run parse evs' ?s3) = Inr (run parse evs' ?s3)"
    if "jsprop ''id'' r = Some (JNum n)"
    using that by (rule late_response_discarded)
qed

lemma timeout_after_quiet_simple:
  assumes quiet: "\<forall>ev\<in>set evs. \<not> concerns parse n ev"
    and fresh: "n < requestId s1"
    and pend: "pendingRequests s1 n = Some c"
    and armed: "Timer d n c e \<in> set (timers s1)"
  shows "pendingRequests (run_simple parse evs s1) n = Some c"
    and "Timer d n c e \<in> set (timers (run_simple parse evs s1))"
    and "pendingRequests (step_simple parse (run_simple parse evs s1) (Fire (Timer d n c e))) n = None"
    and "settled (step_simple parse (run_simple parse evs s1) (Fire (Timer d n c e)))
           = settled (run_simple parse evs s1) @ [(c, Rejected e)]"
    and "jsprop ''id'' r = Some (JNum n) \<Longrightarrow>
           handleMCPResponse_simple r
               (run_simple parse evs' (step_simple parse (run_simple parse evs s1) (Fire (Timer d n c e))))
             = Inr (run_simple parse evs' (step_simple parse (run_simple parse evs s1) (Fire (Timer d n c e))))"
proof -
  let ?s2 = "run_simple parse evs s1"
  let ?s3 = "step_simple parse ?s2 (Fire (Timer d n c e))"
  note k = run_simple_keeps [OF quiet fresh, of d c e]
  from k pend show p2: "pendingRequests ?s2 n = Some c" by simp
  from k armed show t2: "Timer d n c e \<in> set (timers ?s2)" by simp
  from t2 have s3: "?s3 = fire (Timer d n c e) ?s2" by simp
  note f = fire_pending [OF p2, of d c e]
  from f s3 show p3: "pendingRequests ?s3 n = None" by simp
  from f s3 show "settled ?s3 = settled ?s2 @ [(c, Rejected e)]" by simp
  from f s3 k have "n < requestId ?s3" by simp
  from run_simple_keeps_None [OF p3 this, of parse evs']
  have "pendingRequests (run_simple parse evs' ?s3) n = None" by simp
  then show "handleMCPResponse_simple r (run_simple parse evs' ?s3) = Inr (run_simple parse evs' ?s3)"
    if "jsprop ''id'' r = Some (JNum n)"
    using that by (rule late_response_discarded)
qed

lemma proxyToMCP_simple_pending:
  "proxyToMCP_simple c m p s = (None, s1) \<Longrightarrow>
     requestId s < requestId s1 \<and> pendingRequests s1 (requestId s) = Some c
     \<and> Timer 30000 (requestId s) c (Error (Some (JStr ''MCP request timeout''))) \<in> set (timers s1)
     \<and> isInitialized s \<and> mcpProcess s = Some True"
  by (auto simp: proxyToMCP_simple_def next_request_id_def sendToMCP_simple_def Let_def
      split: if_splits)

lemma initializeMCP_simple_pending:
  "initializeMCP_simple s = (None, s1) \<Longrightarrow>
     requestId s < requestId s1 \<and> pendingRequests s1 (requestId s) = Some Startup
     \<and> Timer 10000 (requestId s) Startup (Error (Some (JStr ''MCP initialization timeout''))) \<in> set (timers s1)"
  by (auto simp: initializeMCP_simple_def next_request_id_def sendToMCP_simple_def Let_def
      split: if_splits)

text \<open>
  The calls that arm a timeout. A request is proxied by caller \<open>c\<close> and gets the id
  \<open>n\<close>. Whatever happens
  next (other requests, lines of the child, other timeouts, the child closing its stdin or
  exiting), as long as no line of the child carries the id \<open>n\<close>, the entry is still
  pending and its timeout still armed; when the timeout fires, the entry is removed and
  \<open>c\<close> is rejected with the timeout error; and at any later moment a response with the
  id \<open>n\<close> leaves the bridge as it is. The timeout is armed with 30 000 ms by
  \<open>proxyToMCP\<close> of both variants and with 10 000 ms by the handshake the simple
  variant starts its child with; in the simple variant a request is proxied when the
  promise is left pending (the bridge is initialized and the write succeeds).
\<close>

theorem timeout_rejects_and_late_response_is_discarded:
  assumes quiet: "\<forall>ev\<in>set evs. \<not> concerns parse (requestId s) ev"
  shows
    "(let n = requestId s;
          t = Timer 30000 n c (Error (Some (JStr ''Request timeout'')));
          s2 = run parse evs (proxyToMCP c m p s);
          s3 = step parse s2 (Fire t)
      in pendingRequests s2 n = Some c \<and> t \<in> set (timers s2)
         \<and> pendingRequests s3 n = None
         \<and> settled s3 = settled s2 @ [(c, Rejected (Error (Some (JStr ''Request timeout''))))]
         \<and> (\<forall>evs' r. jsprop ''id'' r = Some (JNum n) \<longrightarrow>
               handleMCPResponse r (run parse evs' s3) = Inr (run parse evs' s3)))
     \<and> (\<forall>s1. proxyToMCP_simple c m p s = (None, s1) \<longrightarrow>
         (let n = requestId s;
              t = Timer 30000 n c (Error (Some (JStr ''MCP request timeout'')));
              s2 = run_simple parse evs s1;
              s3 = step_simple parse s2 (Fire t)
          in pendingRequests s2 n = Some c \<and> t \<in> set (timers s2)
             \<and> pendingRequests s3 n = None
             \<and> settled s3 = settled s2 @ [(c, Rejected (Error (Some (JStr ''MCP request timeout''))))]
             \<and> (\<forall>evs' r. jsprop ''id'' r = Some (JNum n) \<longrightarrow>
                   handleMCPResponse_simple r (run_simple parse evs' s3) = Inr (run_simple parse evs' s3))))
     \<and> (let n = requestId s;
              t = Timer 10000 n Startup (Error (Some (JStr ''MCP initialization timeout'')));
              s2 = run_simple parse evs (snd (startMCPProcess_simple s));
              s3 = step_simple parse s2 (Fire t)
          in fst (startMCPProcess_simple s) = None
             \<and> pendingRequests s2 n = Some Startup \<and> t \<in> set (timers s2)
             \<and> pendingRequests s3 n = None
             \<and> settled s3 = settled s2 @
                  [(Startup, Rejected (Error (Some (JStr ''MCP initialization timeout''))))]
             \<and> (\<forall>evs' r. jsprop ''id'' r = Some (JNum n) \<longrightarrow>
                   handleMCPResponse_simple r (run_simple parse evs' s3) = Inr (run_simple parse evs' s3)))"
proof (intro conjI allI impI)
  have f: "requestId s < requestId (proxyToMCP c m p s)"
    and p: "pendingRequests (proxyToMCP c m p s) (requestId s) = Some c"
    and a: "Timer 30000 (requestId s) c (Error (Some (JStr ''Request timeout'')))
              \<in> set (timers (proxyToMCP c m p s))"
    by (simp_all add: proxyToMCP_frame)
  show "let n = requestId s;
          t = Timer 30000 n c (Error (Some (JStr ''Request timeout'')));
          s2 = run parse evs (proxyToMCP c m p s);
          s3 = step parse s2 (Fire t)
      in pendingRequests s2 n = Some c \<and> t \<in> set (timers s2)
         \<and> pendingRequests s3 n = None
         \<and> settled s3 = settled s2 @ [(c, Rejected (Error (Some (JStr ''Request timeout''))))]
         \<and> (\<forall>evs' r. jsprop ''id'' r = Some (JNum n) \<longrightarrow>
               handleMCPResponse r (run parse evs' s3) = Inr (run parse evs' s3))"
    unfolding Let_def
    using timeout_after_quiet [OF quiet f p a] by blast
next
  fix s1 assume "proxyToMCP_simple c m p s = (None, s1)"
  from proxyToMCP_simple_pending [OF this]
  have f: "requestId s < requestId s1"
    and p: "pendingRequests s1 (requestId s) = Some c"
    and a: "Timer 30000 (requestId s) c (Error (Some (JStr ''MCP request timeout''))) \<in> set (timers s1)"
    by simp_all
  show "let n = requestId s;
              t = Timer 30000 n c (Error (Some (JStr ''MCP request timeout'')));
              s2 = run_simple parse evs s1;
              s3 = step_simple parse s2 (Fire t)
          in pendingRequests s2 n = Some c \<and> t \<in> set (timers s2)
             \<and> pendingRequests s3 n = None
             \<and> settled s3 = settled s2 @ [(c, Rejected (Error (Some (JStr ''MCP request timeout''))))]
             \<and> (\<forall>evs' r. jsprop ''id'' r = Some (JNum n) \<longrightarrow>
                   handleMCPResponse_simple r (run_simple parse evs' s3) = Inr (run_simple parse evs' s3))"
    unfolding Let_def
    using timeout_after_quiet_simple [OF quiet f p a] by blast
next
  let ?s0 = "s\<lparr> mcpProcess := Some True, buffer := [] \<rparr>"
  have av: "fst (startMCPProcess_simple s) = None"
    by (simp add: startMCPProcess_simple_def initializeMCP_simple_def next_request_id_def
        sendToMCP_simple_def Let_def)
  then have "initializeMCP_simple ?s0 = (None, snd (startMCPProcess_simple s))"
    by (simp add: startMCPProcess_simple_def prod_eq_iff)
  from initializeMCP_simple_pending [OF this]
  have f: "requestId s < requestId (snd (startMCPProcess_simple s))"
    and p: "pendingRequests (snd (startMCPProcess_simple s)) (requestId s) = Some Startup"
    and a: "Timer 10000 (requestId s) Startup (Error (Some (JStr ''MCP initialization timeout'')))
              \<in> set (timers (snd (startMCPProcess_simple s)))"
    by simp_all
  show "let n = requestId s;
              t = Timer 10000 n Startup (Error (Some (JStr ''MCP initialization timeout'')));
              s2 = run_simple parse evs (snd (startMCPProcess_simple s));
              s3 = step_simple parse s2 (Fire t)
          in fst (startMCPProcess_simple s) = None
             \<and> pendingRequests s2 n = Some Startup \<and> t \<in> set (timers s2)
             \<and> pendingRequests s3 n = None
             \<and> settled s3 = settled s2 @
                  [(Startup, Rejected (Error (Some (JStr ''MCP initialization timeout''))))]
             \<and> (\<forall>evs' r. jsprop ''id'' r = Some (JNum n) \<longrightarrow>
                   handleMCPResponse_simple r (run_simple parse evs' s3) = Inr (run_simple parse evs' s3))"
    unfolding Let_def
    using av timeout_after_quiet_simple [OF quiet f p a] by blast
qed

text \<open>The definitions a concrete run unfolds to.\<close>

lemmas ev_defs = run_def run_simple_def proxyToMCP_def proxyToMCP_simple_def initializeMCP_def
  initializeMCP_simple_def startMCPProcess_def startMCPProcess_simple_def next_request_id_def
  sendToMCP_def sendToMCP_simple_def new_bridge_def settle_def on_exit_def Let_def
  process_line_def handleMCPResponse_def handleMCPResponse_simple_def mk_request_def
  trim_def is_space_def stdin_closed_def

theorem timeout_rejects_and_late_response_is_discarded_witness:
  "settled (step [[114, 53] \<mapsto> JObj [(''id'', JNum 5)]]
             (run [[114, 53] \<mapsto> JObj [(''id'', JNum 5)]]
                [Call (PostCall 2 JNull) None None, Line [114, 53], Exit]
                (proxyToMCP (PostCall 1 JNull) (Some (JStr ''tools/list'')) None (startMCPProcess new_bridge)))
             (Fire (Timer 30000 2 (PostCall 1 JNull) (Error (Some (JStr ''Request timeout''))))))
     = [(PostCall 1 JNull, Rejected (Error (Some (JStr ''Request timeout''))))]
   \<and> handleMCPResponse (JObj [(''id'', JNum 2), (''result'', JStr ''late'')])
        (step [[114, 53] \<mapsto> JObj [(''id'', JNum 5)]]
             (run [[114, 53] \<mapsto> JObj [(''id'', JNum 5)]]
                [Call (PostCall 2 JNull) None None, Line [114, 53], Exit]
                (proxyToMCP (PostCall 1 JNull) (Some (JStr ''tools/list'')) None (startMCPProcess new_bridge)))
             (Fire (Timer 30000 2 (PostCall 1 JNull) (Error (Some (JStr ''Request timeout''))))))
     = Inr (step [[114, 53] \<mapsto> JObj [(''id'', JNum 5)]]
             (run [[114, 53] \<mapsto> JObj [(''id'', JNum 5)]]
                [Call (PostCall 2 JNull) None None, Line [114, 53], Exit]
                (proxyToMCP (PostCall 1 JNull) (Some (JStr ''tools/list'')) None (startMCPProcess new_bridge)))
             (Fire (Timer 30000 2 (PostCall 1 JNull) (Error (Some (JStr ''Request timeout''))))))
   \<and> proxyToMCP_simple (SimpleCall 1 JNull) None None
         (new_bridge\<lparr> mcpProcess := Some True, isInitialized := True \<rparr>)
       = (None, snd (proxyToMCP_simple (SimpleCall 1 JNull) None None
               (new_bridge\<lparr> mcpProcess := Some True, isInitialized := True \<rparr>)))
   \<and> settled (step_simple Map.empty
        (run_simple Map.empty [Exit]
           (snd (proxyToMCP_simple (SimpleCall 1 JNull) None None
               (new_bridge\<lparr> mcpProcess := Some True, isInitialized := True \<rparr>))))
        (Fire (Timer 30000 1 (SimpleCall 1 JNull) (Error (Some (JStr ''MCP request timeout''))))))
     = [(SimpleCall 1 JNull, Rejected (Error (Some (JStr ''MCP request timeout''))))]
   \<and> settled (step_simple Map.empty
        (run_simple Map.empty [Line [120]] (snd (startMCPProcess_simple new_bridge)))
        (Fire (Timer 10000 1 Startup (Error (Some (JStr ''MCP initialization timeout''))))))
     = [(Startup, Rejected (Error (Some (JStr ''MCP initialization timeout''))))]"
  using timeout_rejects_and_late_response_is_discarded
    [where evs = "[Call (PostCall 2 JNull) None None, Line [114, 53], Exit]"
       and parse = "[[114, 53] \<mapsto> JObj [(''id'', JNum 5)]]"
       and s = "startMCPProcess new_bridge" and c = "PostCall 1 JNull"
       and m = "Some (JStr ''tools/list'')" and p = None]
    timeout_rejects_and_late_response_is_discarded
    [where evs = "[Exit]" and parse = Map.empty
       and s = "new_bridge\<lparr> mcpProcess := Some True, isInitialized := True \<rparr>"
       and c = "SimpleCall 1 JNull" and m = None and p = None]
    timeout_rejects_and_late_response_is_discarded
    [where evs = "[Line [120]]" and parse = Map.empty and s = new_bridge]
  by (simp add: ev_defs)

section \<open>Responses and their callers\<close>

lemma handleMCPResponse_match:
  assumes "jsprop ''id'' r = Some (JNum n)" and "n \<noteq> 0" and "pendingRequests s n = Some c"
  shows "\<exists>s'. handleMCPResponse r s = Inr s'
           \<and> settled s' = settled s @
                [(c, if truthy_val (jsprop ''error'' r)
                     then Rejected (Error (prop_val ''message'' (jsprop ''error'' r)))
                     else Resolved (jsprop ''result'' r))]
           \<and> pendingRequests s' = (pendingRequests s)(n := None)
           \<and> handleMCPResponse r s' = Inr s'"
    (is "\<exists>s'. _ \<and> settled s' = settled s @ [(c, ?out)] \<and> _")
proof -
  from assms(1) have nn: "r \<noteq> JNull" by auto
  with assms have "\<exists>s'. handleMCPResponse r s = Inr s'
           \<and> settled s' = settled s @ [(c, ?out)]
           \<and> pendingRequests s' = (pendingRequests s)(n := None)"
    by (simp add: handleMCPResponse_def Let_def settle_def)
  then obtain s' where
    s': "handleMCPResponse r s = Inr s'"
        "settled s' = settled s @
                [(c, if truthy_val (jsprop ''error'' r)
                     then Rejected (Error (prop_val ''message'' (jsprop ''error'' r)))
                     else Resolved (jsprop ''result'' r))]"
        "pendingRequests s' = (pendingRequests s)(n := None)"
    by blast
  from s'(3) have "pendingRequests s' n = None" by simp
  from late_response_discarded(1) [OF this assms(1)] s' show ?thesis by blast
qed

lemma handleMCPResponse_simple_match:
  assumes "jsprop ''id'' r = Some (JNum n)" and "n \<noteq> 0" and "pendingRequests s n = Some c"
  shows "\<exists>s'. handleMCPResponse_simple r s = Inr s'
           \<and> settled s' = settled s @
                [(c, if truthy_val (jsprop ''error'' r)
                     then Rejected (Error (or_default (prop_val ''message'' (jsprop ''error'' r))
                                             (JStr ''MCP Error'')))
                     else Resolved (jsprop ''result'' r))]
           \<and> pendingRequests s' = (pendingRequests s)(n := None)
           \<and> handleMCPResponse_simple r s' = Inr s'"
    (is "\<exists>s'. _ \<and> settled s' = settled s @ [(c, ?out)] \<and> _")
proof -
  from assms(1) have nn: "r \<noteq> JNull" by auto
  with assms have "\<exists>s'. handleMCPResponse_simple r s = Inr s'
           \<and> settled s' = settled s @ [(c, ?out)]
           \<and> pendingRequests s' = (pendingRequests s)(n := None)"
    by (simp add: handleMCPResponse_simple_def Let_def settle_def)
  then obtain s' where
    s': "handleMCPResponse_simple r s = Inr s'"
        "settled s' = settled s @
                [(c, if truthy_val (jsprop ''error'' r)
                     then Rejected (Error (or_default (prop_val ''message'' (jsprop ''error'' r))
                                             (JStr ''MCP Error'')))
                     else Resolved (jsprop ''result'' r))]"
        "pendingRequests s' = (pendingRequests s)(n := None)"
    by blast
  from s'(3) have "pendingRequests s' n = None" by simp
  from late_response_discarded(2) [OF this assms(1)] s' show ?thesis by blast
qed

text \<open>
  C1. A request proxied by caller \<open>c\<close> gets the id \<open>n\<close>; while other requests
  are proxied, answered and timed out, the first line of the child that carries the id
  \<open>n\<close> settles the promise of \<open>c\<close>, and of nobody else, with the result of that
  response, or rejects it with the message of its error; the entry is removed, every
  other pending entry stays, and the same response arriving again changes nothing. In
  any state of either variant, a response whose id is the key of a pending entry settles
  exactly that entry's caller, and a response whose id is the key of no pending entry
  leaves the whole state, the settled promises included, as it is.
\<close>

theorem response_reaches_its_caller_only:
    "((\<forall>ev\<in>set evs. \<not> concerns parse (requestId s0) ev) \<and> 0 < requestId s0
        \<and> jsprop ''id'' r = Some (JNum (requestId s0)) \<longrightarrow>
        (let s2 = run parse evs (proxyToMCP c m p s0) in
         \<exists>s3. handleMCPResponse r s2 = Inr s3
           \<and> settled s3 = settled s2 @
                [(c, if truthy_val (jsprop ''error'' r)
                     then Rejected (Error (prop_val ''message'' (jsprop ''error'' r)))
                     else Resolved (jsprop ''result'' r))]
           \<and> pendingRequests s3 = (pendingRequests s2)(requestId s0 := None)
           \<and> handleMCPResponse r s3 = Inr s3))
     \<and> (jsprop ''id'' r = Some (JNum n) \<and> n \<noteq> 0 \<and> pendingRequests s n = Some c \<longrightarrow>
        (\<exists>s'. handleMCPResponse r s = Inr s'
           \<and> settled s' = settled s @
                [(c, if truthy_val (jsprop ''error'' r)
                     then Rejected (Error (prop_val ''message'' (jsprop ''error'' r)))
                     else Resolved (jsprop ''result'' r))]
           \<and> pendingRequests s' = (pendingRequests s)(n := None)
           \<and> handleMCPResponse r s' = Inr s')
        \<and> (\<exists>s'. handleMCPResponse_simple r s = Inr s'
           \<and> settled s' = settled s @
                [(c, if truthy_val (jsprop ''error'' r)
                     then Rejected (Error (or_default (prop_val ''message'' (jsprop ''error'' r))
                                             (JStr ''MCP Error'')))
                     else Resolved (jsprop ''result'' r))]
           \<and> pendingRequests s' = (pendingRequests s)(n := None)
           \<and> handleMCPResponse_simple r s' = Inr s'))
     \<and> (r \<noteq> JNull \<and> pending_get s (jsprop ''id'' r) = None \<longrightarrow>
          handleMCPResponse r s = Inr s \<and> handleMCPResponse_simple r s = Inr s)"
proof (intro conjI impI)
  assume h: "(\<forall>ev\<in>set evs. \<not> concerns parse (requestId s0) ev) \<and> 0 < requestId s0
        \<and> jsprop ''id'' r = Some (JNum (requestId s0))"
  then have quiet: "\<forall>ev\<in>set evs. \<not> concerns parse (requestId s0) ev"
    and pos: "0 < requestId s0"
    and id: "jsprop ''id'' r = Some (JNum (requestId s0))"
    by simp_all
  have f: "requestId s0 < requestId (proxyToMCP c m p s0)"
    and p: "pendingRequests (proxyToMCP c m p s0) (requestId s0) = Some c"
    by (simp_all add: proxyToMCP_frame)
  from run_keeps [OF quiet f] p
  have "pendingRequests (run parse evs (proxyToMCP c m p s0)) (requestId s0) = Some c"
    by simp
  from handleMCPResponse_match [OF id _ this] pos
  show "let s2 = run parse evs (proxyToMCP c m p s0) in
         \<exists>s3. handleMCPResponse r s2 = Inr s3
           \<and> settled s3 = settled s2 @
                [(c, if truthy_val (jsprop ''error'' r)
                     then Rejected (Error (prop_val ''message'' (jsprop ''error'' r)))
                     else Resolved (jsprop ''result'' r))]
           \<and> pendingRequests s3 = (pendingRequests s2)(requestId s0 := None)
           \<and> handleMCPResponse r s3 = Inr s3"
    unfolding Let_def by simp
next
  assume h: "jsprop ''id'' r = Some (JNum n) \<and> n \<noteq> 0 \<and> pendingRequests s n = Some c"
  then show "\<exists>s'. handleMCPResponse r s = Inr s'
           \<and> settled s' = settled s @
                [(c, if truthy_val (jsprop ''error'' r)
                     then Rejected (Error (prop_val ''message'' (jsprop ''error'' r)))
                     else Resolved (jsprop ''result'' r))]
           \<and> pendingRequests s' = (pendingRequests s)(n := None)
           \<and> handleMCPResponse r s' = Inr s'"
    using handleMCPResponse_match [of r n s c] by blast
  from h show "\<exists>s'. handleMCPResponse_simple r s = Inr s'
           \<and> settled s' = settled s @
                [(c, if truthy_val (jsprop ''error'' r)
                     then Rejected (Error (or_default (prop_val ''message'' (jsprop ''error'' r))
                                             (JStr ''MCP Error'')))
                     else Resolved (jsprop ''result'' r))]
           \<and> pendingRequests s' = (pendingRequests s)(n := None)
           \<and> handleMCPResponse_simple r s' = Inr s'"
    using handleMCPResponse_simple_match [of r n s c] by blast
next
  assume "r \<noteq> JNull \<and> pending_get s (jsprop ''id'' r) = None"
  then show "handleMCPResponse r s = Inr s"
    by (simp add: handleMCPResponse_no_match)
next
  assume "r \<noteq> JNull \<and> pending_get s (jsprop ''id'' r) = None"
  then show "handleMCPResponse_simple r s = Inr s"
    by (simp add: handleMCPResponse_simple_no_match)
qed

theorem response_reaches_its_caller_only_witness:
  "(case handleMCPResponse (JObj [(''id'', JNum 3), (''result'', JStr ''ok'')])
          (run [[114, 57] \<mapsto> JObj [(''id'', JNum 9)]] [Line [114, 57], Exit]
             (proxyToMCP (PostCall 3 JNull) None None
                (proxyToMCP (PostCall 2 JNull) None None (startMCPProcess new_bridge)))) of
      Inl e \<Rightarrow> False
    | Inr s3 \<Rightarrow>
        settled s3 = [(PostCall 3 JNull, Resolved (Some (JStr ''ok'')))]
        \<and> pendingRequests s3 3 = None
        \<and> pendingRequests s3 2 = Some (PostCall 2 JNull)
        \<and> pendingRequests s3 1 = Some Startup)
   \<and> handleMCPResponse (JObj [(''id'', JNum 9), (''result'', JStr ''stray'')])
        (startMCPProcess new_bridge) = Inr (startMCPProcess new_bridge)
   \<and> handleMCPResponse_simple (JObj [(''id'', JStr ''1''), (''result'', JStr ''stray'')])
        (startMCPProcess new_bridge) = Inr (startMCPProcess new_bridge)"
  using response_reaches_its_caller_only
    [where r = "JObj [(''id'', JNum 9), (''result'', JStr ''stray'')]"
       and s = "startMCPProcess new_bridge"]
    response_reaches_its_caller_only
    [where r = "JObj [(''id'', JStr ''1''), (''result'', JStr ''stray'')]"
       and s = "startMCPProcess new_bridge"]
    response_reaches_its_caller_only
    [where evs = "[Line [114, 57], Exit]" and parse = "[[114, 57] \<mapsto> JObj [(''id'', JNum 9)]]"
       and ?s0.0 = "proxyToMCP (PostCall 2 JNull) None None (startMCPProcess new_bridge)"
       and r = "JObj [(''id'', JNum 3), (''result'', JStr ''ok'')]"
       and c = "PostCall 3 JNull" and m = None and p = None]
  by (simp add: ev_defs)

section \<open>Request identifiers\<close>

lemma handleMCPResponse_ids:
  "handleMCPResponse r s = Inr s' \<Longrightarrow>
     requestId s' = requestId s \<and> issued s' = issued s
     \<and> dom (pendingRequests s') \<subseteq> dom (pendingRequests s)"
  by (auto simp: handleMCPResponse_def Let_def settle_def split: if_splits option.splits)

lemma handleMCPResponse_simple_ids:
  "handleMCPResponse_simple r s = Inr s' \<Longrightarrow>
     requestId s' = requestId s \<and> issued s' = issued s
     \<and> dom (pendingRequests s') \<subseteq> dom (pendingRequests s)"
  by (auto simp: handleMCPResponse_simple_def Let_def settle_def split: if_splits option.splits)

lemma process_line_ids:
  assumes "\<And>r s s'. handler r s = Inr s' \<Longrightarrow>
     requestId s' = requestId s \<and> issued s' = issued s
     \<and> dom (pendingRequests s') \<subseteq> dom (pendingRequests s)"
  shows "requestId (process_line parse handler s l) = requestId s
     \<and> issued (process_line parse handler s l) = issued s
     \<and> dom (pendingRequests (process_line parse handler s l)) \<subseteq> dom (pendingRequests s)"
proof (cases "trim l \<noteq> []")
  case False
  then show ?thesis by (simp add: process_line_def)
next
  case True
  show ?thesis
  proof (cases "parse l")
    case None
    with True show ?thesis by (simp add: process_line_def)
  next
    case (Some r)
    show ?thesis
    proof (cases "handler r s")
      case (Inl e)
      with True Some show ?thesis by (simp add: process_line_def)
    next
      case (Inr s')
      with True Some have "process_line parse handler s l = s'" by (simp add: process_line_def)
      with assms [OF Inr] show ?thesis by simp
    qed
  qed
qed

lemma fire_ids:
  "requestId (fire t s) = requestId s \<and> issued (fire t s) = issued s
   \<and> dom (pendingRequests (fire t s)) \<subseteq> dom (pendingRequests s)"
  by (cases t) (auto simp: Let_def settle_def)

lemma proxyToMCP_ids:
  "requestId (proxyToMCP c m p s) = requestId s + 1
   \<and> issued (proxyToMCP c m p s) = issued s @ [requestId s]
   \<and> dom (pendingRequests (proxyToMCP c m p s)) = insert (requestId s) (dom (pendingRequests s))"
  by (simp add: proxyToMCP_def next_request_id_def sendToMCP_def Let_def)

lemma initializeMCP_ids:
  "requestId (initializeMCP s) = requestId s + 1
   \<and> issued (initializeMCP s) = issued s @ [requestId s]
   \<and> dom (pendingRequests (initializeMCP s)) = insert (requestId s) (dom (pendingRequests s))"
  by (simp add: initializeMCP_def next_request_id_def sendToMCP_def Let_def)

lemma proxyToMCP_simple_ids:
  "(requestId (snd (proxyToMCP_simple c m p s)) = requestId s
      \<and> issued (snd (proxyToMCP_simple c m p s)) = issued s
      \<and> dom (pendingRequests (snd (proxyToMCP_simple c m p s))) = dom (pendingRequests s))
   \<or> (requestId (snd (proxyToMCP_simple c m p s)) = requestId s + 1
      \<and> issued (snd (proxyToMCP_simple c m p s)) = issued s @ [requestId s]
      \<and> dom (pendingRequests (snd (proxyToMCP_simple c m p s)))
          = insert (requestId s) (dom (pendingRequests s)))"
  by (auto simp: proxyToMCP_simple_def next_request_id_def sendToMCP_simple_def Let_def)

lemma initializeMCP_simple_ids:
  "requestId (snd (initializeMCP_simple s)) = requestId s + 1
   \<and> issued (snd (initializeMCP_simple s)) = issued s @ [requestId s]
   \<and> dom (pendingRequests (snd (initializeMCP_simple s)))
       = insert (requestId s) (dom (pendingRequests s))"
  by (auto simp: initializeMCP_simple_def next_request_id_def sendToMCP_simple_def Let_def)

lemma ids_grow:
  fixes k :: int
  assumes "1 \<le> k" and "xs = [1..k - 1]" and "D \<subseteq> {1..<k}"
  shows "1 \<le> k + 1 \<and> xs @ [k] = [1..k + 1 - 1] \<and> insert k D \<subseteq> {1..<k + 1}"
proof -
  from assms(1) have "[1..k] = [1..k - 1] @ [k]" by (simp add: upto_rec2)
  with assms show ?thesis by auto
qed

lemma ids_stay:
  fixes k :: int
  assumes "D' \<subseteq> D" and "D \<subseteq> {1..<k}"
  shows "D' \<subseteq> {1..<k}"
  using assms by blast

lemma step_ids:
  assumes "1 \<le> requestId s" and "issued s = [1..requestId s - 1]"
    and "dom (pendingRequests s) \<subseteq> {1..<requestId s}"
  shows "1 \<le> requestId (step parse s ev)
     \<and> issued (step parse s ev) = [1..requestId (step parse s ev) - 1]
     \<and> dom (pendingRequests (step parse s ev)) \<subseteq> {1..<requestId (step parse s ev)}"
proof (cases ev)
  case Start
  let ?s = "s\<lparr>mcpProcess := Some True, buffer := []\<rparr>"
  from assms have "1 \<le> requestId ?s" "issued ?s = [1..requestId ?s - 1]"
    "dom (pendingRequests ?s) \<subseteq> {1..<requestId ?s}" by simp_all
  from ids_grow [OF this] initializeMCP_ids [of ?s] Start show ?thesis
    by (simp add: startMCPProcess_def)
next
  case (Call c m p)
  from ids_grow [OF assms] proxyToMCP_ids [of c m p s] Call show ?thesis
    by simp
next
  case (Line l)
  note pl = process_line_ids [of handleMCPResponse parse s l, OF handleMCPResponse_ids]
  from pl have "dom (pendingRequests (process_line parse handleMCPResponse s l))
                  \<subseteq> dom (pendingRequests s)" by simp
  from ids_stay [OF this assms(3)] pl assms Line show ?thesis by simp
next
  case (Fire t)
  from fire_ids [of t s]
  have "dom (pendingRequests (fire t s)) \<subseteq> dom (pendingRequests s)" by simp
  from ids_stay [OF this assms(3)] fire_ids [of t s] assms Fire show ?thesis by simp
next
  case StdinClosed
  with assms show ?thesis by (simp add: stdin_closed_def split: option.splits)
next
  case Exit
  with assms show ?thesis by (simp add: on_exit_def)
qed

lemma step_simple_ids:
  assumes "1 \<le> requestId s" and "issued s = [1..requestId s - 1]"
    and "dom (pendingRequests s) \<subseteq> {1..<requestId s}"
  shows "1 \<le> requestId (step_simple parse s ev)
     \<and> issued (step_simple parse s ev) = [1..requestId (step_simple parse s ev) - 1]
     \<and> dom (pendingRequests (step_simple parse s ev)) \<subseteq> {1..<requestId (step_simple parse s ev)}"
proof (cases ev)
  case Start
  let ?s = "s\<lparr>mcpProcess := Some True, buffer := []\<rparr>"
  from assms have "1 \<le> requestId ?s" "issued ?s = [1..requestId ?s - 1]"
    "dom (pendingRequests ?s) \<subseteq> {1..<requestId ?s}" by simp_all
  from ids_grow [OF this] initializeMCP_simple_ids [of ?s] Start show ?thesis
    by (simp add: startMCPProcess_simple_def)
next
  case (Call c m p)
  from proxyToMCP_simple_ids [of c m p s] show ?thesis
  proof
    assume "requestId (snd (proxyToMCP_simple c m p s)) = requestId s
      \<and> issued (snd (proxyToMCP_simple c m p s)) = issued s
      \<and> dom (pendingRequests (snd (proxyToMCP_simple c m p s))) = dom (pendingRequests s)"
    with assms Call show ?thesis by simp
  next
    assume "requestId (snd (proxyToMCP_simple c m p s)) = requestId s + 1
      \<and> issued (snd (proxyToMCP_simple c m p s)) = issued s @ [requestId s]
      \<and> dom (pendingRequests (snd (proxyToMCP_simple c m p s)))
          = insert (requestId s) (dom (pendingRequests s))"
    with ids_grow [OF assms] Call show ?thesis by simp
  qed
next
  case (Line l)
  note pl = process_line_ids [of handleMCPResponse_simple parse s l, OF handleMCPResponse_simple_ids]
  from pl have "dom (pendingRequests (process_line parse handleMCPResponse_simple s l))
                  \<subseteq> dom (pendingRequests s)" by simp
  from ids_stay [OF this assms(3)] pl assms Line show ?thesis by simp
next
  case (Fire t)
  from fire_ids [of t s]
  have "dom (pendingRequests (fire t s)) \<subseteq> dom (pendingRequests s)" by simp
  from ids_stay [OF this assms(3)] fire_ids [of t s] assms Fire show ?thesis by simp
next
  case StdinClosed
  with assms show ?thesis by (simp add: stdin_closed_def split: option.splits)
next
  case Exit
  with assms show ?thesis by (simp add: on_exit_def)
qed

lemma run_ids:
  assumes "1 \<le> requestId s" and "issued s = [1..requestId s - 1]"
    and "dom (pendingRequests s) \<subseteq> {1..<requestId s}"
  shows "1 \<le> requestId (run parse evs s)
     \<and> issued (run parse evs s) = [1..requestId (run parse evs s) - 1]
     \<and> dom (pendingRequests (run parse evs s)) \<subseteq> {1..<requestId (run parse evs s)}"
  using assms unfolding run_def
proof (induction evs arbitrary: s)
  case Nil
  then show ?case by simp
next
  case (Cons ev evs)
  from step_ids [OF Cons.prems, of parse ev]
  have "1 \<le> requestId (step parse s ev)"
    "issued (step parse s ev) = [1..requestId (step parse s ev) - 1]"
    "dom (pendingRequests (step parse s ev)) \<subseteq> {1..<requestId (step parse s ev)}"
    by simp_all
  from Cons.IH [OF this] show ?case by simp
qed

lemma run_simple_ids:
  assumes "1 \<le> requestId s" and "issued s = [1..requestId s - 1]"
    and "dom (pendingRequests s) \<subseteq> {1..<requestId s}"
  shows "1 \<le> requestId (run_simple parse evs s)
     \<and> issued (run_simple parse evs s) = [1..requestId (run_simple parse evs s) - 1]
     \<and> dom (pendingRequests (run_simple parse evs s)) \<subseteq> {1..<requestId (run_simple parse evs s)}"
  using assms unfolding run_simple_def
proof (induction evs arbitrary: s)
  case Nil
  then show ?case by simp
next
  case (Cons ev evs)
  from step_simple_ids [OF Cons.prems, of parse ev]
  have "1 \<le> requestId (step_simple parse s ev)"
    "issued (step_simple parse s ev) = [1..requestId (step_simple parse s ev) - 1]"
    "dom (pendingRequests (step_simple parse s ev)) \<subseteq> {1..<requestId (step_simple parse s ev)}"
    by simp_all
  from Cons.IH [OF this] show ?case by simp
qed

lemma ids_summary:
  fixes k :: int
  assumes "1 \<le> k" and "xs = [1..k - 1]" and "D \<subseteq> {1..<k}"
  shows "sorted_wrt (<) xs \<and> distinct xs \<and> D \<subseteq> set xs \<and> k \<notin> set xs \<and> k \<notin> D
         \<and> (xs = [] \<or> hd xs = 1)"
proof -
  have "sorted_wrt (<) [1..k - 1]" by (simp add: strict_sorted_iff)
  moreover have "xs = [] \<or> hd xs = 1"
    using assms(2) by (cases "1 \<le> k - 1") (simp_all add: upto_rec1)
  ultimately show ?thesis using assms by auto
qed

text \<open>
  C7. The constructor sets the counter to 1 and \<open>this.requestId++\<close> hands out the
  counter and adds one to it. After any sequence of events, in either variant, the
  identifiers handed out so far are exactly \<open>1, 2, \<dots>, requestId - 1\<close> in this order:
  strictly increasing, so none was handed out twice, and the next one is new. The keys
  of the pending-request map are among the identifiers handed out, and the next
  identifier is not a key, so recording a new request never replaces a pending entry.
\<close>

theorem request_ids_count_up_from_one:
  "requestId new_bridge = 1
   \<and> fst (next_request_id s) = requestId s
   \<and> requestId (snd (next_request_id s)) = requestId s + 1
   \<and> (let s = run parse evs new_bridge in
        issued s = [1..requestId s - 1]
        \<and> sorted_wrt (<) (issued s) \<and> distinct (issued s)
        \<and> requestId s \<notin> set (issued s)
        \<and> dom (pendingRequests s) \<subseteq> set (issued s)
        \<and> pendingRequests s (requestId s) = None)
   \<and> (let s = run_simple parse evs new_bridge in
        issued s = [1..requestId s - 1]
        \<and> sorted_wrt (<) (issued s) \<and> distinct (issued s)
        \<and> requestId s \<notin> set (issued s)
        \<and> dom (pendingRequests s) \<subseteq> set (issued s)
        \<and> pendingRequests s (requestId s) = None)"
proof -
  have init: "1 \<le> requestId new_bridge" "issued new_bridge = [1..requestId new_bridge - 1]"
    "dom (pendingRequests new_bridge) \<subseteq> {1..<requestId new_bridge}"
    by (simp_all add: new_bridge_def)
  have a: "requestId new_bridge = 1" by (simp add: new_bridge_def)
  have b: "fst (next_request_id s) = requestId s"
    "requestId (snd (next_request_id s)) = requestId s + 1"
    by (simp_all add: next_request_id_def)
  let ?s = "run parse evs new_bridge"
  from run_ids [OF init, of parse evs]
  have "1 \<le> requestId ?s" "issued ?s = [1..requestId ?s - 1]"
    "dom (pendingRequests ?s) \<subseteq> {1..<requestId ?s}"
    by simp_all
  from ids_summary [OF this] this(2)
  have c: "issued ?s = [1..requestId ?s - 1]
        \<and> sorted_wrt (<) (issued ?s) \<and> distinct (issued ?s)
        \<and> requestId ?s \<notin> set (issued ?s)
        \<and> dom (pendingRequests ?s) \<subseteq> set (issued ?s)
        \<and> pendingRequests ?s (requestId ?s) = None"
    by (simp add: domIff)
  let ?t = "run_simple parse evs new_bridge"
  from run_simple_ids [OF init, of parse evs]
  have "1 \<le> requestId ?t" "issued ?t = [1..requestId ?t - 1]"
    "dom (pendingRequests ?t) \<subseteq> {1..<requestId ?t}"
    by simp_all
  from ids_summary [OF this] this(2)
  have d: "issued ?t = [1..requestId ?t - 1]
        \<and> sorted_wrt (<) (issued ?t) \<and> distinct (issued ?t)
        \<and> requestId ?t \<notin> set (issued ?t)
        \<and> dom (pendingRequests ?t) \<subseteq> set (issued ?t)
        \<and> pendingRequests ?t (requestId ?t) = None"
    by (simp add: domIff)
  from a b c d show ?thesis unfolding Let_def by blast
qed

theorem request_ids_count_up_from_one_witness:
  "issued (run Map.empty
       [Start, Call (PostCall 1 JNull) None None, Fire (Timer 30000 2 (PostCall 1 JNull) (Error None)),
        Call (PostCall 2 JNull) None None, Exit, Call (PostCall 3 JNull) None None]
       new_bridge) = [1, 2, 3, 4]
   \<and> requestId (run Map.empty
       [Start, Call (PostCall 1 JNull) None None, Fire (Timer 30000 2 (PostCall 1 JNull) (Error None)),
        Call (PostCall 2 JNull) None None, Exit, Call (PostCall 3 JNull) None None]
       new_bridge) = 5"
  using request_ids_count_up_from_one
    [where parse = Map.empty and evs =
       "[Start, Call (PostCall 1 JNull) None None, Fire (Timer 30000 2 (PostCall 1 JNull) (Error None)),
         Call (PostCall 2 JNull) None None, Exit, Call (PostCall 3 JNull) None None]"]
  by (simp add: ev_defs)

section \<open>Framing of the child's output\<close>

lemma split_on_nonempty [simp]: "split_on c xs \<noteq> []"
  by (induction xs) (auto split: list.splits)










lemma process_line_buffer:
  assumes "\<And>r s b. handler r (s\<lparr>buffer := b\<rparr>)
     = (case handler r s of Inl e \<Rightarrow> Inl e | Inr s' \<Rightarrow> Inr (s'\<lparr>buffer := b\<rparr>))"
  shows "process_line parse handler (s\<lparr>buffer := b\<rparr>) l
           = (process_line parse handler s l)\<lparr>buffer := b\<rparr>"
  by (simp add: process_line_def assms split: option.splits sum.splits)

lemma foldl_process_line_buffer:
  assumes "\<And>r s b. handler r (s\<lparr>buffer := b\<rparr>)
     = (case handler r s of Inl e \<Rightarrow> Inl e | Inr s' \<Rightarrow> Inr (s'\<lparr>buffer := b\<rparr>))"
  shows "foldl (process_line parse handler) (s\<lparr>buffer := b\<rparr>) ls
           = (foldl (process_line parse handler) s ls)\<lparr>buffer := b\<rparr>"
  by (induction ls arbitrary: s) (simp_all add: process_line_buffer [OF assms])

lemma foldl_process_line_buffer_same:
  assumes "\<And>r s b. handler r (s\<lparr>buffer := b\<rparr>)
     = (case handler r s of Inl e \<Rightarrow> Inl e | Inr s' \<Rightarrow> Inr (s'\<lparr>buffer := b\<rparr>))"
  shows "buffer (foldl (process_line parse handler) s ls) = buffer s"
proof -
  have "foldl (process_line parse handler) (s\<lparr>buffer := buffer s\<rparr>) ls
           = (foldl (process_line parse handler) s ls)\<lparr>buffer := buffer s\<rparr>"
    by (rule foldl_process_line_buffer [OF assms])
  then have "foldl (process_line parse handler) s ls
           = (foldl (process_line parse handler) s ls)\<lparr>buffer := buffer s\<rparr>"
    by simp
  then have "buffer (foldl (process_line parse handler) s ls)
           = buffer ((foldl (process_line parse handler) s ls)\<lparr>buffer := buffer s\<rparr>)"
    by simp
  then show ?thesis by simp
qed










section \<open>Session termination\<close>

text \<open>
  C8. \<open>DELETE /mcp\<close> without the session header is answered 400. With a session id in
  the header it is answered 200, and that session (no other) is removed, when the id is
  in the session set; it is answered 404, and nothing changes, when it is not. So a
  second deletion of the same id is answered 404. (A header that is present but empty
  carries no id; the handler answers it 400 like an absent one.)
\<close>

theorem delete_session_succeeds_once:
  "handleMCPDelete None s = (json_response 400 (ErrorObj ''Session ID required''), s)
   \<and> handleMCPDelete (Some []) s = (json_response 400 (ErrorObj ''Session ID required''), s)
   \<and> (sid \<noteq> [] \<and> sessions s sid \<noteq> None \<longrightarrow>
        handleMCPDelete (Some sid) s
          = (json_response 200 (MessageObj ''Session terminated''),
             s\<lparr> sessions := (sessions s)(sid := None) \<rparr>)
        \<and> handleMCPDelete (Some sid) (snd (handleMCPDelete (Some sid) s))
          = (json_response 404 (ErrorObj ''Session not found''), snd (handleMCPDelete (Some sid) s)))
   \<and> (sid \<noteq> [] \<and> sessions s sid = None \<longrightarrow>
        handleMCPDelete (Some sid) s = (json_response 404 (ErrorObj ''Session not found''), s))"
  by (simp add: handleMCPDelete_def)

theorem delete_session_succeeds_once_witness:
  "status (fst (handleMCPDelete (Some ''abc'')
      (new_bridge\<lparr> sessions := [''abc'' \<mapsto> \<lparr> createdAt = 0, clientInfo = None \<rparr>] \<rparr>))) = 200
   \<and> sessions (snd (handleMCPDelete (Some ''abc'')
      (new_bridge\<lparr> sessions := [''abc'' \<mapsto> \<lparr> createdAt = 0, clientInfo = None \<rparr>] \<rparr>))) ''abc'' = None
   \<and> status (fst (handleMCPDelete (Some ''abc'') (snd (handleMCPDelete (Some ''abc'')
      (new_bridge\<lparr> sessions := [''abc'' \<mapsto> \<lparr> createdAt = 0, clientInfo = None \<rparr>] \<rparr>))))) = 404
   \<and> status (fst (handleMCPDelete (Some ''xyz'')
      (new_bridge\<lparr> sessions := [''abc'' \<mapsto> \<lparr> createdAt = 0, clientInfo = None \<rparr>] \<rparr>))) = 404"
  using delete_session_succeeds_once
    [where sid = "''abc''"
       and s = "new_bridge\<lparr> sessions := [''abc'' \<mapsto> \<lparr> createdAt = 0, clientInfo = None \<rparr>] \<rparr>"]
    delete_session_succeeds_once
    [where sid = "''xyz''"
       and s = "new_bridge\<lparr> sessions := [''abc'' \<mapsto> \<lparr> createdAt = 0, clientInfo = None \<rparr>] \<rparr>"]
  by (simp add: handleMCPDelete_def handleMCPGet_def json_response_def new_bridge_def)

section \<open>Opening an event stream\<close>

lemma take_is_prefix: "(take (length t) xs = t) = (\<exists>q. xs = t @ q)"
proof
  assume "take (length t) xs = t"
  then have "xs = t @ drop (length t) xs"
    by (metis append_take_drop_id)
  then show "\<exists>q. xs = t @ q" ..
next
  assume "\<exists>q. xs = t @ q"
  then show "take (length t) xs = t" by auto
qed

lemma str_includes_iff: "str_includes a t = (\<exists>p q. a = p @ t @ q)"
proof (induction a)
  case Nil
  show ?case by auto
next
  case (Cons c cs)
  have "(\<exists>p q. c # cs = p @ t @ q) = ((\<exists>q. c # cs = t @ q) \<or> (\<exists>p q. cs = p @ t @ q))"
  proof
    assume "\<exists>p q. c # cs = p @ t @ q"
    then obtain p q where pq: "c # cs = p @ t @ q" by blast
    show "(\<exists>q. c # cs = t @ q) \<or> (\<exists>p q. cs = p @ t @ q)"
    proof (cases p)
      case Nil
      with pq show ?thesis by auto
    next
      case (Cons x p')
      with pq have "cs = p' @ t @ q" by simp
      then show ?thesis by blast
    qed
  next
    assume "(\<exists>q. c # cs = t @ q) \<or> (\<exists>p q. cs = p @ t @ q)"
    then show "\<exists>p q. c # cs = p @ t @ q"
    proof
      assume "\<exists>q. c # cs = t @ q"
      then obtain q where "c # cs = [] @ t @ q" by auto
      then show ?thesis by blast
    next
      assume "\<exists>p q. cs = p @ t @ q"
      then obtain p q where "c # cs = (c # p) @ t @ q" by auto
      then show ?thesis by blast
    qed
  qed
  with Cons show ?case
    by (simp add: take_is_prefix del: take_Suc_Cons)
qed

text \<open>
  C6, as the code has it. In the compliant variant the streaming endpoint is
  \<open>GET /mcp\<close>: a request whose Accept header is absent, or does not contain
  \<open>text/event-stream\<close>, is answered 400 and the bridge is left as it was: no connection
  entry, no keep-alive interval, no frame.
\<close>

theorem get_mcp_without_event_stream_is_rejected:
  assumes "acceptHeader = None
           \<or> (\<exists>a. acceptHeader = Some a \<and> (\<nexists>p q. a = p @ ''text/event-stream'' @ q))"
  shows "handleMCPGet res acceptHeader origin sessionId connectionId s
           = (json_response 400 (ErrorObj ''Accept header must include text/event-stream''), s)"
  using assms by (auto simp: handleMCPGet_def str_includes_iff)

theorem get_mcp_without_event_stream_is_rejected_witness:
  "fst (handleMCPGet 1 (Some ''application/json'') None None ''c1'' new_bridge)
     = \<lparr> status = 400, headers = [(''Content-Type'', ''application/json'')],
         body = ErrorObj ''Accept header must include text/event-stream'' \<rparr>
   \<and> sseConnections (snd (handleMCPGet 1 (Some ''application/json'') None None ''c1'' new_bridge)) ''c1''
       = None
   \<and> intervals (snd (handleMCPGet 1 (Some ''application/json'') None None ''c1'' new_bridge)) = []"
proof -
  have "\<not> str_includes ''application/json'' ''text/event-stream''" by simp
  with str_includes_iff [of "''application/json''" "''text/event-stream''"]
  have "\<nexists>p q. ''application/json'' = p @ ''text/event-stream'' @ q"
    by blast
  then have "Some ''application/json'' = None
       \<or> (\<exists>a. Some ''application/json'' = Some a \<and> (\<nexists>p q. a = p @ ''text/event-stream'' @ q))"
    by blast
  from get_mcp_without_event_stream_is_rejected [OF this, of 1 None None "''c1''" new_bridge]
  show ?thesis by (simp add: json_response_def new_bridge_def)
qed

text \<open>
  C6 as the spec words it fails: \<open>/sse\<close> is a route of the simple variant only, and
  its handler reads no header. A \<open>GET /sse\<close> without an Accept header is answered 200
  with an event stream, and the keep-alive interval is started. In the compliant variant
  \<open>/sse\<close> is no route at all.
\<close>

theorem sse_without_accept_counterexample:
  "route_simple ''/sse'' = ToSse
   \<and> fst (handleSSE_simple 1 None new_bridge)
       = \<lparr> status = 200,
           headers = [(''Content-Type'', ''text/event-stream''), (''Cache-Control'', ''no-cache''),
                      (''Connection'', ''keep-alive'')],
           body = EventStream [] \<rparr>
   \<and> intervals (snd (handleSSE_simple 1 None new_bridge)) = [1]
   \<and> route ''/sse'' = NotFound"
  by (simp add: route_simple_def route_def normalize_path_def handleSSE_simple_def new_bridge_def Let_def)

text \<open>The Accept header a conforming client sends with a POST.\<close>

lemma accept_ok:
  "validateAcceptHeader (Some ''application/json, text/event-stream'')
     [''application/json'', ''text/event-stream'']"
  by (simp add: validateAcceptHeader_def trim_header_def header_space_def is_space_def Let_def)

section \<open>Writes while the child is unavailable\<close>

text \<open>
  C5, as the code has it. While the child is absent or its stdin is not writable, the
  \<open>sendToMCP\<close> of the simple variant throws \<open>MCP process not available\<close>; an HTTP
  request the simple variant proxies in that state (the bridge being initialized) is
  answered 500 with the JSON-RPC code \<open>-32603\<close> and that message, nothing is written
  to the child, no promise is settled, and the pending entries of all other requests are
  left alone. The \<open>sendToMCP\<close> of the compliant variant adds a line to the log and
  returns.
\<close>

theorem simple_write_without_child_is_internal_error:
  assumes "mcpProcess s \<noteq> Some True"
  shows
    "sendToMCP_simple msg s = Inl (Error (Some (JStr ''MCP process not available'')))
     \<and> (isInitialized s \<and> parse reqbody = Some request \<and> request \<noteq> JNull \<longrightarrow>
          fst (handleMCP_simple parse res ''POST'' reqbody s)
            = Reply (json_response 500 (RpcError (Some JNull) (- 32603)
                (MessageOf (Error (Some (JStr ''MCP process not available''))))))
          \<and> child_stdin (snd (handleMCP_simple parse res ''POST'' reqbody s)) = child_stdin s
          \<and> settled (snd (handleMCP_simple parse res ''POST'' reqbody s)) = settled s
          \<and> timers (snd (handleMCP_simple parse res ''POST'' reqbody s)) = timers s
          \<and> (\<forall>n. n \<noteq> requestId s \<longrightarrow>
                pendingRequests (snd (handleMCP_simple parse res ''POST'' reqbody s)) n
                  = pendingRequests s n))
     \<and> sendToMCP msg s = s\<lparr> log := log s @ [LogNotAvailable] \<rparr>"
  using assms
  by (simp add: sendToMCP_simple_def sendToMCP_def handleMCP_simple_def proxyToMCP_simple_def
      next_request_id_def internal_error_def Let_def)

theorem simple_write_without_child_is_internal_error_witness:
  "fst (handleMCP_simple [[113] \<mapsto> JObj [(''id'', JNum 7), (''method'', JStr ''tools/list'')]] 1
          ''POST'' [113] (new_bridge\<lparr> mcpProcess := Some False, isInitialized := True \<rparr>))
     = Reply \<lparr> status = 500, headers = [(''Content-Type'', ''application/json'')],
               body = RpcError (Some JNull) (- 32603)
                        (MessageOf (Error (Some (JStr ''MCP process not available'')))) \<rparr>
   \<and> settled (snd (handleMCP_simple [[113] \<mapsto> JObj [(''id'', JNum 7), (''method'', JStr ''tools/list'')]] 1
          ''POST'' [113] (new_bridge\<lparr> mcpProcess := Some False, isInitialized := True \<rparr>))) = []"
  using simple_write_without_child_is_internal_error
    [where s = "new_bridge\<lparr> mcpProcess := Some False, isInitialized := True \<rparr>"
       and parse = "[[113] \<mapsto> JObj [(''id'', JNum 7), (''method'', JStr ''tools/list'')]]"
       and reqbody = "[113]" and res = 1
       and request = "JObj [(''id'', JNum 7), (''method'', JStr ''tools/list'')]"]
  by (simp add: json_response_def new_bridge_def)

text \<open>
  C5 as the spec words it fails in the compliant variant. The child has answered the
  handshake and exited. A notification posted then is answered 202 although nothing is
  written to the child, and a request posted then is suspended with its entry pending and
  nothing written: no error reaches the caller from the write. When its timeout fires,
  the caller is answered 400 with the code \<open>-32700\<close>.
\<close>

theorem compliant_write_without_child_counterexample:
  "(case handleMCPResponse
           (JObj [(''id'', JNum 1), (''result'', JObj [(''capabilities'', JObj [])])])
           (startMCPProcess new_bridge) of
      Inl e \<Rightarrow> False
    | Inr s \<Rightarrow>
        mcpProcess (on_exit s) = None
        \<and> handleMCPPost [[110] \<mapsto> JObj [(''method'', JStr ''notifications/test'')]] 1
              (Some ''application/json, text/event-stream'') None [110] (on_exit s)
            = (Reply \<lparr> status = 202, headers = [], body = NoBody \<rparr>,
               (on_exit s)\<lparr> log := log (on_exit s) @ [LogNotAvailable] \<rparr>)
        \<and> fst (handleMCPPost [[113] \<mapsto> JObj [(''id'', JNum 7), (''method'', JStr ''tools/list'')]] 1
              (Some ''application/json, text/event-stream'') None [113] (on_exit s)) = Awaiting
        \<and> child_stdin (snd (handleMCPPost
              [[113] \<mapsto> JObj [(''id'', JNum 7), (''method'', JStr ''tools/list'')]] 1
              (Some ''application/json, text/event-stream'') None [113] (on_exit s))) = child_stdin s
        \<and> settled (snd (handleMCPPost
              [[113] \<mapsto> JObj [(''id'', JNum 7), (''method'', JStr ''tools/list'')]] 1
              (Some ''application/json, text/event-stream'') None [113] (on_exit s))) = settled s)
   \<and> handleMCPPost_resume (JObj [(''id'', JNum 7), (''method'', JStr ''tools/list'')])
        (Rejected (Error (Some (JStr ''Request timeout''))))
      = \<lparr> status = 400, headers = [(''Content-Type'', ''application/json'')],
          body = RpcError (Some JNull) (- 32700) (Lit ''Parse error'') \<rparr>"
  by (simp add: ev_defs accept_ok handleMCPPost_def handleMCPPost_resume_def parse_error_def
      json_response_def unknown_session_def handleInitializeRequest_def)

section \<open>The start-up handshake of the compliant variant\<close>

lemma fire_timers: "set (timers (fire t s)) \<subseteq> set (timers s)"
  using set_remove1_subset [of t "timers s"]
  by (cases t) (auto simp: Let_def settle_def)

lemma step_arms_no_timer_for:
  assumes quiet: "\<forall>l. ev = Line l \<longrightarrow> \<not> concerns parse n ev"
    and fresh: "n < requestId s"
    and none: "\<forall>t\<in>set (timers s). case t of Timer d m c e \<Rightarrow> m \<noteq> n"
  shows "n < requestId (step parse s ev)
         \<and> pendingRequests (step parse s ev) n = pendingRequests s n
         \<and> (\<forall>t\<in>set (timers (step parse s ev)). case t of Timer d m c e \<Rightarrow> m \<noteq> n)"
proof (cases ev)
  case Start
  with fresh none show ?thesis
    by (simp add: startMCPProcess_def initializeMCP_frame)
next
  case (Call c m p)
  with fresh none show ?thesis by (auto simp: proxyToMCP_frame)
next
  case (Line l)
  with quiet have k: "\<not> concerns parse n ev" by simp
  from step_keeps [OF k fresh]
    process_line_frame [of handleMCPResponse parse s l, OF handleMCPResponse_frame]
    none Line
  show ?thesis by simp
next
  case (Fire t)
  show ?thesis
  proof (cases "t \<in> set (timers s)")
    case False
    with Fire fresh none show ?thesis by simp
  next
    case True
    with none have "case t of Timer d m c e \<Rightarrow> m \<noteq> n" by blast
    then have k: "\<not> concerns parse n ev"
      using Fire by (cases t) simp
    from fire_timers [of t s] none
    have "\<forall>t'\<in>set (timers (fire t s)). case t' of Timer d m c e \<Rightarrow> m \<noteq> n" by blast
    with step_keeps [OF k fresh] Fire True show ?thesis by simp
  qed
next
  case StdinClosed
  with fresh none show ?thesis by (simp add: stdin_closed_def split: option.splits)
next
  case Exit
  with fresh none show ?thesis by (simp add: on_exit_def)
qed

lemma run_arms_no_timer_for:
  assumes "\<forall>ev\<in>set evs. \<forall>l. ev = Line l \<longrightarrow> \<not> concerns parse n ev"
    and "n < requestId s"
    and "\<forall>t\<in>set (timers s). case t of Timer d m c e \<Rightarrow> m \<noteq> n"
  shows "n < requestId (run parse evs s)
         \<and> pendingRequests (run parse evs s) n = pendingRequests s n
         \<and> (\<forall>t\<in>set (timers (run parse evs s)). case t of Timer d m c e \<Rightarrow> m \<noteq> n)"
  using assms unfolding run_def
proof (induction evs arbitrary: s)
  case Nil
  then show ?case by simp
next
  case (Cons ev evs)
  from Cons.prems(1) have q: "\<forall>l. ev = Line l \<longrightarrow> \<not> concerns parse n ev" by simp
  from step_arms_no_timer_for [OF q Cons.prems(2,3)]
  have st: "n < requestId (step parse s ev)"
    "pendingRequests (step parse s ev) n = pendingRequests s n"
    "\<forall>t\<in>set (timers (step parse s ev)). case t of Timer d m c e \<Rightarrow> m \<noteq> n"
    by simp_all
  from Cons.prems(1) have "\<forall>ev\<in>set evs. \<forall>l. ev = Line l \<longrightarrow> \<not> concerns parse n ev" by simp
  from Cons.IH [OF this st(1) st(3)] st(2) show ?case by simp
qed

text \<open>
  C2 fails on the handshake the compliant variant starts its child with. The bridge is
  constructed and started: \<open>initializeMCP\<close> takes the id 1, records the pending entry
  and arms no timeout. Whatever happens afterwards, requests proxied, timeouts fired, the
  child exiting, as long as no line of the child carries the id 1 the entry is still
  pending and no timeout for it exists: the entry is never removed and the start of the
  bridge is never rejected.
\<close>

theorem compliant_handshake_has_no_timeout:
  assumes "\<forall>ev\<in>set evs. \<forall>l. ev = Line l \<longrightarrow> \<not> concerns parse 1 ev"
  shows "timers (startMCPProcess new_bridge) = []
     \<and> pendingRequests (startMCPProcess new_bridge) 1 = Some Startup
     \<and> pendingRequests (run parse evs (startMCPProcess new_bridge)) 1 = Some Startup
     \<and> (\<forall>t\<in>set (timers (run parse evs (startMCPProcess new_bridge))).
           case t of Timer d m c e \<Rightarrow> m \<noteq> 1)"
proof -
  have a: "timers (startMCPProcess new_bridge) = []"
    and b: "pendingRequests (startMCPProcess new_bridge) 1 = Some Startup"
    and c: "1 < requestId (startMCPProcess new_bridge)"
    by (simp_all add: startMCPProcess_def initializeMCP_frame new_bridge_def)
  from a have "\<forall>t\<in>set (timers (startMCPProcess new_bridge)). case t of Timer d m c e \<Rightarrow> m \<noteq> 1"
    by simp
  from run_arms_no_timer_for [OF assms c this] a b show ?thesis by simp
qed

theorem compliant_handshake_has_no_timeout_witness:
  "pendingRequests
     (run Map.empty
        [Fire (Timer 30000 1 Startup (Error (Some (JStr ''Request timeout'')))), Line [120],
         Call (PostCall 1 JNull) None None, Exit,
         Fire (Timer 30000 2 (PostCall 1 JNull) (Error (Some (JStr ''Request timeout''))))]
        (startMCPProcess new_bridge)) 1 = Some Startup
   \<and> settled
     (run Map.empty
        [Fire (Timer 30000 1 Startup (Error (Some (JStr ''Request timeout'')))), Line [120],
         Call (PostCall 1 JNull) None None, Exit,
         Fire (Timer 30000 2 (PostCall 1 JNull) (Error (Some (JStr ''Request timeout''))))]
        (startMCPProcess new_bridge))
     = [(PostCall 1 JNull, Rejected (Error (Some (JStr ''Request timeout''))))]"
  using compliant_handshake_has_no_timeout
    [where parse = Map.empty and evs =
       "[Fire (Timer 30000 1 Startup (Error (Some (JStr ''Request timeout'')))), Line [120],
         Call (PostCall 1 JNull) None None, Exit,
         Fire (Timer 30000 2 (PostCall 1 JNull) (Error (Some (JStr ''Request timeout''))))]"]
  by (simp add: ev_defs)

section \<open>Messages with a falsy id\<close>

lemma falsy_values:
  "(\<not> truthy_val v) = (v \<in> {None, Some JNull, Some (JBool False), Some (JNum 0), Some (JStr [])})"
proof (cases v)
  case None
  then show ?thesis by simp
next
  case (Some j)
  then show ?thesis by (cases j) auto
qed

lemma process_line_falsy_id:
  assumes "parse l = Some r" and "\<not> truthy_val (jsprop ''id'' r)"
  shows "settled (process_line parse handleMCPResponse s l) = settled s
         \<and> pendingRequests (process_line parse handleMCPResponse s l) = pendingRequests s"
  using assms by (simp add: process_line_def handleMCPResponse_def)

text \<open>
  C9, as the code has it. In the compliant variant, take a POST to \<open>/mcp\<close> with a valid
  Accept header whose body parses to a message other than \<open>null\<close>, and let the id of
  the message be falsy: absent, \<open>null\<close>, \<open>false\<close>, \<open>0\<close> or the empty string. When
  the method is not \<open>initialize\<close> and the session id is absent or known, the request is
  answered 202 with no body; no identifier is allocated, no pending entry recorded, no
  timeout armed and no promise settled; the message is forwarded as a notification when
  it has a method. When the method is \<open>initialize\<close>, the message is proxied as a
  handshake whatever its id: an identifier is allocated, the entry recorded and the
  timeout armed. When the method is not \<open>initialize\<close> and the session id is unknown,
  the request is answered 404 and the id is not looked at. And a response of the child
  whose id is falsy settles no promise and removes no pending entry, whatever the
  pending-request map holds.
\<close>

theorem falsy_id_is_no_id:
    "(validateAcceptHeader acceptHeader [''application/json'', ''text/event-stream'']
        \<and> parse reqbody = Some message \<and> message \<noteq> JNull
        \<and> jsprop ''id'' message \<in> {None, Some JNull, Some (JBool False), Some (JNum 0), Some (JStr [])}
      \<longrightarrow>
        (jsprop ''method'' message \<noteq> Some (JStr ''initialize'') \<and> \<not> unknown_session sessionId s
          \<longrightarrow>
            handleMCPPost parse res acceptHeader sessionId reqbody s
              = (Reply \<lparr> status = 202, headers = [], body = NoBody \<rparr>,
                 if truthy_val (jsprop ''method'' message) then sendToMCP message s else s)
            \<and> requestId (snd (handleMCPPost parse res acceptHeader sessionId reqbody s)) = requestId s
            \<and> pendingRequests (snd (handleMCPPost parse res acceptHeader sessionId reqbody s))
                 = pendingRequests s
            \<and> timers (snd (handleMCPPost parse res acceptHeader sessionId reqbody s)) = timers s
            \<and> settled (snd (handleMCPPost parse res acceptHeader sessionId reqbody s)) = settled s)
        \<and> (jsprop ''method'' message = Some (JStr ''initialize'')
          \<longrightarrow>
            fst (handleMCPPost parse res acceptHeader sessionId reqbody s) = Awaiting
            \<and> requestId (snd (handleMCPPost parse res acceptHeader sessionId reqbody s))
                 = requestId s + 1
            \<and> pendingRequests (snd (handleMCPPost parse res acceptHeader sessionId reqbody s))
                 = (pendingRequests s)(requestId s \<mapsto> InitCall res message)
            \<and> timers (snd (handleMCPPost parse res acceptHeader sessionId reqbody s))
                 = timers s @ [Timer 30000 (requestId s) (InitCall res message)
                                 (Error (Some (JStr ''Request timeout'')))])
        \<and> (jsprop ''method'' message \<noteq> Some (JStr ''initialize'') \<and> unknown_session sessionId s
          \<longrightarrow>
            handleMCPPost parse res acceptHeader sessionId reqbody s
              = (Reply (json_response 404
                   (RpcError (jsprop ''id'' message) (- 32001) (Lit ''Session not found''))), s)))
     \<and> (jsprop ''id'' r \<in> {None, Some JNull, Some (JBool False), Some (JNum 0), Some (JStr [])} \<longrightarrow>
          (r \<noteq> JNull \<longrightarrow> handleMCPResponse r s' = Inr s')
          \<and> (parse l = Some r \<longrightarrow>
                settled (process_line parse handleMCPResponse s' l) = settled s'
                \<and> pendingRequests (process_line parse handleMCPResponse s' l) = pendingRequests s'))"
proof -
  let ?post = "handleMCPPost parse res acceptHeader sessionId reqbody s"
  have post: "(jsprop ''method'' message \<noteq> Some (JStr ''initialize'') \<and> \<not> unknown_session sessionId s
          \<longrightarrow>
            ?post
              = (Reply \<lparr> status = 202, headers = [], body = NoBody \<rparr>,
                 if truthy_val (jsprop ''method'' message) then sendToMCP message s else s)
            \<and> requestId (snd ?post) = requestId s
            \<and> pendingRequests (snd ?post) = pendingRequests s
            \<and> timers (snd ?post) = timers s
            \<and> settled (snd ?post) = settled s)
        \<and> (jsprop ''method'' message = Some (JStr ''initialize'')
          \<longrightarrow>
            fst ?post = Awaiting
            \<and> requestId (snd ?post) = requestId s + 1
            \<and> pendingRequests (snd ?post) = (pendingRequests s)(requestId s \<mapsto> InitCall res message)
            \<and> timers (snd ?post)
                 = timers s @ [Timer 30000 (requestId s) (InitCall res message)
                                 (Error (Some (JStr ''Request timeout'')))])
        \<and> (jsprop ''method'' message \<noteq> Some (JStr ''initialize'') \<and> unknown_session sessionId s
          \<longrightarrow>
            ?post
              = (Reply (json_response 404
                   (RpcError (jsprop ''id'' message) (- 32001) (Lit ''Session not found''))), s))"
    if h: "validateAcceptHeader acceptHeader [''application/json'', ''text/event-stream'']
        \<and> parse reqbody = Some message \<and> message \<noteq> JNull
        \<and> jsprop ''id'' message \<in> {None, Some JNull, Some (JBool False), Some (JNum 0), Some (JStr [])}"
  proof (intro conjI impI)
    from h falsy_values [of "jsprop ''id'' message"]
    have f: "\<not> truthy_val (jsprop ''id'' message)" by blast
    {
      assume n: "jsprop ''method'' message \<noteq> Some (JStr ''initialize'') \<and> \<not> unknown_session sessionId s"
      with h f
      show a: "?post
         = (Reply \<lparr> status = 202, headers = [], body = NoBody \<rparr>,
            if truthy_val (jsprop ''method'' message) then sendToMCP message s else s)"
        by (simp add: handleMCPPost_def)
      show "requestId (snd ?post) = requestId s"
        "pendingRequests (snd ?post) = pendingRequests s"
        "timers (snd ?post) = timers s"
        "settled (snd ?post) = settled s"
        unfolding a by (simp_all add: sendToMCP_def)
    }
    {
      assume i: "jsprop ''method'' message = Some (JStr ''initialize'')"
      with h have a: "?post
          = (Awaiting, proxyToMCP (InitCall res message) (Some (JStr ''initialize''))
                         (jsprop ''params'' message) s)"
        by (simp add: handleMCPPost_def handleInitializeRequest_def)
      show "fst ?post = Awaiting"
        "requestId (snd ?post) = requestId s + 1"
        "pendingRequests (snd ?post) = (pendingRequests s)(requestId s \<mapsto> InitCall res message)"
        "timers (snd ?post)
                 = timers s @ [Timer 30000 (requestId s) (InitCall res message)
                                 (Error (Some (JStr ''Request timeout'')))]"
        unfolding a by (simp_all add: proxyToMCP_frame)
    }
    {
      assume "jsprop ''method'' message \<noteq> Some (JStr ''initialize'') \<and> unknown_session sessionId s"
      with h show "?post
              = (Reply (json_response 404
                   (RpcError (jsprop ''id'' message) (- 32001) (Lit ''Session not found''))), s)"
        by (simp add: handleMCPPost_def)
    }
  qed
  have c: "r \<noteq> JNull \<longrightarrow> handleMCPResponse r s' = Inr s'"
    if "jsprop ''id'' r \<in> {None, Some JNull, Some (JBool False), Some (JNum 0), Some (JStr [])}"
    using that falsy_values [of "jsprop ''id'' r"] by (simp add: handleMCPResponse_def)
  have d: "parse l = Some r \<longrightarrow>
                settled (process_line parse handleMCPResponse s' l) = settled s'
                \<and> pendingRequests (process_line parse handleMCPResponse s' l) = pendingRequests s'"
    if "jsprop ''id'' r \<in> {None, Some JNull, Some (JBool False), Some (JNum 0), Some (JStr [])}"
    using that falsy_values [of "jsprop ''id'' r"] process_line_falsy_id [of parse l r s']
    by blast
  from post c d show ?thesis by blast
qed

theorem falsy_id_is_no_id_witness:
  "handleMCPPost [[122] \<mapsto> JObj [(''jsonrpc'', JStr ''2.0''), (''id'', JNum 0), (''method'', JStr ''tools/list'')]]
       1 (Some ''application/json, text/event-stream'') None [122]
       (new_bridge\<lparr> mcpProcess := Some True, isInitialized := True \<rparr>)
     = (Reply \<lparr> status = 202, headers = [], body = NoBody \<rparr>,
        new_bridge\<lparr> mcpProcess := Some True, isInitialized := True,
          child_stdin := [JObj [(''jsonrpc'', JStr ''2.0''), (''id'', JNum 0), (''method'', JStr ''tools/list'')]] \<rparr>)
   \<and> handleMCPPost
         [[122] \<mapsto> JObj [(''jsonrpc'', JStr ''2.0''), (''id'', JNum 0), (''method'', JStr ''tools/list'')]]
         1 (Some ''application/json, text/event-stream'') (Some ''bogus'') [122]
         (new_bridge\<lparr> mcpProcess := Some True, isInitialized := True \<rparr>)
       = (Reply \<lparr> status = 404, headers = [(''Content-Type'', ''application/json'')],
                   body = RpcError (Some (JNum 0)) (- 32001) (Lit ''Session not found'') \<rparr>,
          new_bridge\<lparr> mcpProcess := Some True, isInitialized := True \<rparr>)
   \<and> handleMCPResponse (JObj [(''id'', JNum 0), (''result'', JStr ''x'')])
        ((startMCPProcess new_bridge)\<lparr> pendingRequests := [0 \<mapsto> Startup] \<rparr>)
       = Inr ((startMCPProcess new_bridge)\<lparr> pendingRequests := [0 \<mapsto> Startup] \<rparr>)"
  using falsy_id_is_no_id
    [where r = "JObj [(''id'', JNum 0), (''result'', JStr ''x'')]"
       and s' = "(startMCPProcess new_bridge)\<lparr> pendingRequests := [0 \<mapsto> Startup] \<rparr>"]
    falsy_id_is_no_id
    [where parse = "[[122] \<mapsto> JObj [(''jsonrpc'', JStr ''2.0''), (''id'', JNum 0), (''method'', JStr ''tools/list'')]]"
       and reqbody = "[122]" and res = 1 and sessionId = None
       and acceptHeader = "Some ''application/json, text/event-stream''"
       and message = "JObj [(''jsonrpc'', JStr ''2.0''), (''id'', JNum 0), (''method'', JStr ''tools/list'')]"
       and s = "new_bridge\<lparr> mcpProcess := Some True, isInitialized := True \<rparr>"]
    falsy_id_is_no_id
    [where parse = "[[122] \<mapsto> JObj [(''jsonrpc'', JStr ''2.0''), (''id'', JNum 0), (''method'', JStr ''tools/list'')]]"
       and reqbody = "[122]" and res = 1 and sessionId = "Some ''bogus''"
       and acceptHeader = "Some ''application/json, text/event-stream''"
       and message = "JObj [(''jsonrpc'', JStr ''2.0''), (''id'', JNum 0), (''method'', JStr ''tools/list'')]"
       and s = "new_bridge\<lparr> mcpProcess := Some True, isInitialized := True \<rparr>"]
  by (simp add: accept_ok unknown_session_def sendToMCP_def new_bridge_def json_response_def)

text \<open>
  C9 as the spec words it fails when the method is \<open>initialize\<close>. The child has
  answered the start-up handshake. A POST with the body
  \<open>{"jsonrpc":"2.0","id":0,"method":"initialize"}\<close> is not answered 202: it is
  suspended on a round trip, the request is written to the child under the id 2, the
  pending entry is recorded and the timeout armed.
\<close>

theorem falsy_id_initialize_counterexample:
  "(case handleMCPResponse
           (JObj [(''id'', JNum 1), (''result'', JObj [(''capabilities'', JObj [])])])
           (startMCPProcess new_bridge) of
      Inl e \<Rightarrow> False
    | Inr s \<Rightarrow>
        (case handleMCPPost
                [[105] \<mapsto> JObj [(''jsonrpc'', JStr ''2.0''), (''id'', JNum 0), (''method'', JStr ''initialize'')]]
                1 (Some ''application/json, text/event-stream'') None [105] s of
           (rep, s1) \<Rightarrow>
             rep = Awaiting
             \<and> child_stdin s1 = child_stdin s @
                 [JObj [(''jsonrpc'', JStr ''2.0''), (''id'', JNum 2), (''method'', JStr ''initialize'')]]
             \<and> pendingRequests s1 2
                 = Some (InitCall 1
                     (JObj [(''jsonrpc'', JStr ''2.0''), (''id'', JNum 0), (''method'', JStr ''initialize'')]))
             \<and> timers s1
                 = [Timer 30000 2
                     (InitCall 1
                       (JObj [(''jsonrpc'', JStr ''2.0''), (''id'', JNum 0), (''method'', JStr ''initialize'')]))
                     (Error (Some (JStr ''Request timeout'')))]))"
  by (simp add: ev_defs accept_ok handleMCPPost_def handleInitializeRequest_def)

section \<open>The handshake over HTTP and the session check\<close>

text \<open>
  In the compliant variant a POST to \<open>/mcp\<close> with a valid Accept header whose message
  has the method \<open>initialize\<close> is proxied to the child whatever the session header
  holds, an unknown session id included: the method is looked at before the session. The
  request written to the child is the handshake under a new id, with the \<open>params\<close> of
  the message. When the round trip succeeds and the message has \<open>params\<close>, the
  continuation stores a session under the id \<open>randomUUID()\<close> returned and answers 200
  with that id in the \<open>Mcp-Session-Id\<close> header; when the message has no \<open>params\<close>,
  or \<open>null\<close>, it answers 500 and stores nothing. Any other message that comes with an
  unknown session id is answered 404 with the code \<open>-32001\<close>, and nothing is proxied.
\<close>

theorem initialize_is_exempt_from_session_check:
  assumes "validateAcceptHeader acceptHeader [''application/json'', ''text/event-stream'']"
    and "parse reqbody = Some message"
    and "jsprop ''method'' message = Some (JStr ''initialize'')"
  shows
    "fst (handleMCPPost parse res acceptHeader sessionId reqbody s) = Awaiting
     \<and> pendingRequests (snd (handleMCPPost parse res acceptHeader sessionId reqbody s))
          = (pendingRequests s)(requestId s \<mapsto> InitCall res message)
     \<and> (mcpProcess s = Some True \<longrightarrow>
          child_stdin (snd (handleMCPPost parse res acceptHeader sessionId reqbody s))
            = child_stdin s @
                [JObj ([(''jsonrpc'', JStr ''2.0''), (''id'', JNum (requestId s)),
                        (''method'', JStr ''initialize'')]
                       @ (case jsprop ''params'' message of None \<Rightarrow> [] | Some p \<Rightarrow> [(''params'', p)]))])
     \<and> (jsprop ''params'' message = Some params \<and> params \<noteq> JNull \<longrightarrow>
          handleInitializeRequest_resume uuid now message (Resolved result) s'
            = (\<lparr> status = 200,
                 headers = [(''Content-Type'', ''application/json''), (''Mcp-Session-Id'', uuid)],
                 body = RpcResult (jsprop ''id'' message) result \<rparr>,
               s'\<lparr> sessions := (sessions s')(uuid \<mapsto>
                     \<lparr> createdAt = now, clientInfo = jsprop ''clientInfo'' params \<rparr>) \<rparr>))
     \<and> (jsprop ''params'' message = None \<or> jsprop ''params'' message = Some JNull \<longrightarrow>
          handleInitializeRequest_resume uuid now message (Resolved result) s'
            = (json_response 500 (RpcError (jsprop ''id'' message) (- 32603) (MessageOf TypeError)), s'))
     \<and> (parse reqbody' = Some message' \<and> message' \<noteq> JNull
          \<and> jsprop ''method'' message' \<noteq> Some (JStr ''initialize'')
          \<and> unknown_session sessionId s \<longrightarrow>
          handleMCPPost parse res acceptHeader sessionId reqbody' s
            = (Reply (json_response 404
                 (RpcError (jsprop ''id'' message') (- 32001) (Lit ''Session not found''))), s))"
proof -
  from assms(3) have nn: "message \<noteq> JNull" by auto
  with assms
  have a: "handleMCPPost parse res acceptHeader sessionId reqbody s
       = (Awaiting,
          proxyToMCP (InitCall res message) (Some (JStr ''initialize'')) (jsprop ''params'' message) s)"
    by (simp add: handleMCPPost_def handleInitializeRequest_def)
  have a1: "fst (handleMCPPost parse res acceptHeader sessionId reqbody s) = Awaiting"
    unfolding a by simp
  have b: "pendingRequests (snd (handleMCPPost parse res acceptHeader sessionId reqbody s))
          = (pendingRequests s)(requestId s \<mapsto> InitCall res message)"
    unfolding a by (simp add: proxyToMCP_frame)
  have c: "mcpProcess s = Some True \<longrightarrow>
          child_stdin (snd (handleMCPPost parse res acceptHeader sessionId reqbody s))
            = child_stdin s @
                [JObj ([(''jsonrpc'', JStr ''2.0''), (''id'', JNum (requestId s)),
                        (''method'', JStr ''initialize'')]
                       @ (case jsprop ''params'' message of None \<Rightarrow> [] | Some p \<Rightarrow> [(''params'', p)]))]"
    unfolding a
    by (simp add: proxyToMCP_def next_request_id_def sendToMCP_def mk_request_def Let_def
        split: option.splits)
  have d: "jsprop ''params'' message = Some params \<and> params \<noteq> JNull \<longrightarrow>
          handleInitializeRequest_resume uuid now message (Resolved result) s'
            = (\<lparr> status = 200,
                 headers = [(''Content-Type'', ''application/json''), (''Mcp-Session-Id'', uuid)],
                 body = RpcResult (jsprop ''id'' message) result \<rparr>,
               s'\<lparr> sessions := (sessions s')(uuid \<mapsto>
                     \<lparr> createdAt = now, clientInfo = jsprop ''clientInfo'' params \<rparr>) \<rparr>)"
    by (simp add: handleInitializeRequest_resume_def)
  have d': "jsprop ''params'' message = None \<or> jsprop ''params'' message = Some JNull \<longrightarrow>
          handleInitializeRequest_resume uuid now message (Resolved result) s'
            = (json_response 500 (RpcError (jsprop ''id'' message) (- 32603) (MessageOf TypeError)), s')"
    by (auto simp: handleInitializeRequest_resume_def)
  have e: "parse reqbody' = Some message' \<and> message' \<noteq> JNull
          \<and> jsprop ''method'' message' \<noteq> Some (JStr ''initialize'')
          \<and> unknown_session sessionId s \<longrightarrow>
          handleMCPPost parse res acceptHeader sessionId reqbody' s
            = (Reply (json_response 404
                 (RpcError (jsprop ''id'' message') (- 32001) (Lit ''Session not found''))), s)"
    using assms(1) by (simp add: handleMCPPost_def)
  from a1 b c d d' e show ?thesis by blast
qed

theorem initialize_is_exempt_from_session_check_witness:
  "sessions (snd (handleInitializeRequest_resume ''u-1'' 5
         (JObj [(''jsonrpc'', JStr ''2.0''), (''id'', JNum 1), (''method'', JStr ''initialize''),
                (''params'', JObj [(''clientInfo'', JObj [(''name'', JStr ''t'')])])])
         (Resolved (Some (JObj [(''capabilities'', JObj [])])))
         (new_bridge\<lparr> mcpProcess := Some True, isInitialized := True \<rparr>))) ''u-1''
       = Some \<lparr> createdAt = 5, clientInfo = Some (JObj [(''name'', JStr ''t'')]) \<rparr>
   \<and> fst (handleMCPPost
         [[105] \<mapsto> JObj [(''jsonrpc'', JStr ''2.0''), (''id'', JNum 1), (''method'', JStr ''initialize''),
                         (''params'', JObj [(''clientInfo'', JObj [(''name'', JStr ''t'')])])]]
         1 (Some ''application/json, text/event-stream'') (Some ''bogus'') [105]
         (new_bridge\<lparr> mcpProcess := Some True, isInitialized := True \<rparr>)) = Awaiting
   \<and> handleMCPPost
         [[116] \<mapsto> JObj [(''jsonrpc'', JStr ''2.0''), (''id'', JNum 3), (''method'', JStr ''tools/list'')]]
         1 (Some ''application/json, text/event-stream'') (Some ''bogus'') [116]
         (new_bridge\<lparr> mcpProcess := Some True, isInitialized := True \<rparr>)
       = (Reply \<lparr> status = 404, headers = [(''Content-Type'', ''application/json'')],
                   body = RpcError (Some (JNum 3)) (- 32001) (Lit ''Session not found'') \<rparr>,
          new_bridge\<lparr> mcpProcess := Some True, isInitialized := True \<rparr>)"
  using initialize_is_exempt_from_session_check
    [where parse = "[[105] \<mapsto> JObj [(''jsonrpc'', JStr ''2.0''), (''id'', JNum 1), (''method'', JStr ''initialize''),
                         (''params'', JObj [(''clientInfo'', JObj [(''name'', JStr ''t'')])])]]"
       and reqbody = "[105]" and res = 1 and sessionId = "Some ''bogus''"
       and acceptHeader = "Some ''application/json, text/event-stream''"
       and s = "new_bridge\<lparr> mcpProcess := Some True, isInitialized := True \<rparr>",
     OF accept_ok]
  by (simp add: ev_defs accept_ok unknown_session_def handleMCPPost_def handleInitializeRequest_def
      handleInitializeRequest_resume_def json_response_def)

text \<open>
  C10 fails on a handshake without \<open>params\<close>. The child has answered the start-up
  handshake. A POST with the header \<open>Mcp-Session-Id: bogus\<close> and the body
  \<open>{"jsonrpc":"2.0","id":1,"method":"initialize"}\<close> is proxied: the handshake is
  written to the child under the id 2 and the entry recorded. The child answers with a
  result, which resolves the promise of that request: the round trip has succeeded. The
  continuation then reads \<open>message.params.clientInfo\<close>, which throws, and answers 500
  with the code \<open>-32603\<close>; no session is stored and no session id returned.
\<close>

theorem initialize_without_params_gets_no_session:
  "(case handleMCPResponse
           (JObj [(''id'', JNum 1), (''result'', JObj [(''capabilities'', JObj [])])])
           (startMCPProcess new_bridge) of
      Inl e \<Rightarrow> False
    | Inr s \<Rightarrow>
        (case handleMCPPost
                [[105] \<mapsto> JObj [(''jsonrpc'', JStr ''2.0''), (''id'', JNum 1), (''method'', JStr ''initialize'')]]
                1 (Some ''application/json, text/event-stream'') (Some ''bogus'') [105] s of
           (rep, s1) \<Rightarrow>
             rep = Awaiting
             \<and> child_stdin s1 = child_stdin s @
                 [JObj [(''jsonrpc'', JStr ''2.0''), (''id'', JNum 2), (''method'', JStr ''initialize'')]]
             \<and> pendingRequests s1 2
                 = Some (InitCall 1
                     (JObj [(''jsonrpc'', JStr ''2.0''), (''id'', JNum 1), (''method'', JStr ''initialize'')]))
             \<and> (case handleMCPResponse
                        (JObj [(''jsonrpc'', JStr ''2.0''), (''id'', JNum 2),
                               (''result'', JObj [(''capabilities'', JObj [])])]) s1 of
                   Inl e \<Rightarrow> False
                 | Inr s2 \<Rightarrow>
                     settled s2 = settled s @
                       [(InitCall 1
                           (JObj [(''jsonrpc'', JStr ''2.0''), (''id'', JNum 1), (''method'', JStr ''initialize'')]),
                         Resolved (Some (JObj [(''capabilities'', JObj [])])))]
                     \<and> sessions s2 = Map.empty
                     \<and> handleInitializeRequest_resume ''u-1'' 5
                         (JObj [(''jsonrpc'', JStr ''2.0''), (''id'', JNum 1), (''method'', JStr ''initialize'')])
                         (Resolved (Some (JObj [(''capabilities'', JObj [])]))) s2
                       = (\<lparr> status = 500, headers = [(''Content-Type'', ''application/json'')],
                            body = RpcError (Some (JNum 1)) (- 32603) (MessageOf TypeError) \<rparr>,
                          s2))))"
  by (simp add: ev_defs accept_ok handleMCPPost_def handleInitializeRequest_def
      handleInitializeRequest_resume_def json_response_def)

end
